theory Spec2Isabelle
  imports Main
begin

section \<open>HTTP headers and query values\<close>

text \<open>
  Go's \<^verbatim>\<open>http.Header\<close> and \<^verbatim>\<open>url.Values\<close> are both \<^verbatim>\<open>map[string][]string\<close>.
  Keys are the canonical ones the source writes. Reading a missing key of a Go map yields
  the nil slice, whose length is 0.
\<close>

type_synonym Header = "string \<rightharpoonup> string list"

definition index :: "Header \<Rightarrow> string \<Rightarrow> string list" where
  "index h k = (case h k of None \<Rightarrow> [] | Some vs \<Rightarrow> vs)"

definition Header_Get :: "Header \<Rightarrow> string \<Rightarrow> string" where
  "Header_Get h k = (case index h k of [] \<Rightarrow> [] | v # _ \<Rightarrow> v)"

definition Header_Add :: "Header \<Rightarrow> string \<Rightarrow> string \<Rightarrow> Header" where
  "Header_Add h k v = h(k \<mapsto> index h k @ [v])"

definition Header_Set :: "Header \<Rightarrow> string \<Rightarrow> string \<Rightarrow> Header" where
  "Header_Set h k v = h(k \<mapsto> [v])"

definition Header_Del :: "Header \<Rightarrow> string \<Rightarrow> Header" where
  "Header_Del h k = h(k := None)"

section \<open>The three regular expressions\<close>

text \<open>
  \<^verbatim>\<open>\b\<close> is the ASCII word boundary of Go's regexp package: a position with a word
  character (\<^verbatim>\<open>[0-9A-Za-z_]\<close>) on exactly one side. Strings are byte lists.
\<close>

definition isWordChar :: "char \<Rightarrow> bool" where
  "isWordChar c = (let n = of_char c :: nat in
     (48 \<le> n \<and> n \<le> 57) \<or> (65 \<le> n \<and> n \<le> 90) \<or> (97 \<le> n \<and> n \<le> 122) \<or> n = 95)"

text \<open>What follows a match that ends in a word character is a boundary.\<close>

definition boundaryAfter :: "string \<Rightarrow> bool" where
  "boundaryAfter rest = (case rest of [] \<Rightarrow> True | c # _ \<Rightarrow> \<not> isWordChar c)"

fun hasPrefix :: "string \<Rightarrow> string \<Rightarrow> bool" where
  "hasPrefix s [] = True"
| "hasPrefix [] (p # ps) = False"
| "hasPrefix (c # s) (p # ps) = (c = p \<and> hasPrefix s ps)"

text \<open>
  \<^verbatim>\<open>jsonRe = (?i)\bjson\b\<close>. Under \<^verbatim>\<open>(?i)\<close> Go folds case by Unicode simple folding,
  so \<^verbatim>\<open>s\<close> also matches U+017F (bytes C5 BF); j, o and n have only their two ASCII forms.
  \<open>jsonHere s\<close> matches the four letters and the closing boundary at the head of \<open>s\<close>.
\<close>

definition foldS :: "string \<Rightarrow> string option" where
  "foldS s = (case s of
      [] \<Rightarrow> None
    | c # r \<Rightarrow> if c = CHR ''s'' \<or> c = CHR ''S'' then Some r
              else if of_char c = (197::nat) then
                (case r of [] \<Rightarrow> None | d # r' \<Rightarrow> if of_char d = (191::nat) then Some r' else None)
              else None)"

definition jsonHere :: "string \<Rightarrow> bool" where
  "jsonHere s = (case s of
      [] \<Rightarrow> False
    | j # r1 \<Rightarrow> (j = CHR ''j'' \<or> j = CHR ''J'') \<and>
        (case foldS r1 of
           None \<Rightarrow> False
         | Some r2 \<Rightarrow> (case r2 of
               ob # nb # r3 \<Rightarrow> (ob = CHR ''o'' \<or> ob = CHR ''O'') \<and> (nb = CHR ''n'' \<or> nb = CHR ''N'')
                                \<and> boundaryAfter r3
             | _ \<Rightarrow> False)))"

text \<open>
  A scan over the start positions; \<open>prevWord\<close> tells whether the byte before the
  position is a word character (False at the start of the string).
\<close>

fun jsonScan :: "bool \<Rightarrow> string \<Rightarrow> bool" where
  "jsonScan prevWord [] = False"
| "jsonScan prevWord (c # s) = ((\<not> prevWord \<and> jsonHere (c # s)) \<or> jsonScan (isWordChar c) s)"

definition jsonRe_MatchString :: "string \<Rightarrow> bool" where
  "jsonRe_MatchString s = jsonScan False s"

text \<open>\<^verbatim>\<open>notransformRe = \bno-transform\b\<close>.\<close>

definition notransformHere :: "string \<Rightarrow> bool" where
  "notransformHere s = (hasPrefix s ''no-transform'' \<and> boundaryAfter (drop 12 s))"

fun notransformScan :: "bool \<Rightarrow> string \<Rightarrow> bool" where
  "notransformScan prevWord [] = False"
| "notransformScan prevWord (c # s) =
     ((\<not> prevWord \<and> notransformHere (c # s)) \<or> notransformScan (isWordChar c) s)"

definition notransformRe_MatchString :: "string \<Rightarrow> bool" where
  "notransformRe_MatchString s = notransformScan False s"

text \<open>
  \<^verbatim>\<open>preferRe = \s*selector="?json-pointer"?\<close>. The expression is not anchored, so the
  leading \<^verbatim>\<open>\s*\<close> and the trailing optional quote match the empty string: the value
  matches when it contains \<^verbatim>\<open>selector=\<close>, an optional double quote, and \<^verbatim>\<open>json-pointer\<close>.
\<close>

definition preferHere :: "string \<Rightarrow> bool" where
  "preferHere s = (hasPrefix s ''selector='' \<and>
     (let r = drop 9 s in
        hasPrefix r ''json-pointer'' \<or>
        (case r of [] \<Rightarrow> False | q # r' \<Rightarrow> of_char q = (34::nat) \<and> hasPrefix r' ''json-pointer'')))"

fun preferScan :: "string \<Rightarrow> bool" where
  "preferScan [] = False"
| "preferScan (c # s) = (preferHere (c # s) \<or> preferScan s)"

definition preferRe_MatchString :: "string \<Rightarrow> bool" where
  "preferRe_MatchString s = preferScan s"

section \<open>Requests\<close>

text \<open>
  A \<^verbatim>\<open>waitPusher\<close>, whose type is declared outside the sources, is known here by
  its \<^verbatim>\<open>id\<close> and by the relations it has already been asked to push. The request
  context either has no value under
  \<^verbatim>\<open>ctxKey{}\<close>, or holds the \<^verbatim>\<open>*waitPusher\<close> that CreateRequestContext stored, which
  may be a nil pointer.
\<close>

record waitPusher =
  pusher_id :: string
  pushed :: "string list"

datatype ctxValue = NoValue | Pusher "waitPusher option"

text \<open>
  \<^verbatim>\<open>net/url.URL\<close>, reduced to what this package reads: \<^verbatim>\<open>IsAbs\<close> is
  \<^verbatim>\<open>Scheme != ""\<close>, and \<^verbatim>\<open>String\<close> reassembles the scheme and the rest.
\<close>

record URL =
  Scheme :: string
  Rest :: string

definition IsAbs :: "URL \<Rightarrow> bool" where
  "IsAbs u = (Scheme u \<noteq> [])"

definition URL_String :: "URL \<Rightarrow> string" where
  "URL_String u = (if Scheme u = [] then Rest u else Scheme u @ '':'' @ Rest u)"

text \<open>
  A request: its headers, the parsed query of its URL (\<^verbatim>\<open>req.URL.Query()\<close>), the URL
  and the value of its context under \<^verbatim>\<open>ctxKey{}\<close>.
\<close>

record Request =
  Header :: Header
  Query :: Header
  URL :: URL
  Context :: ctxValue

section \<open>The protocol gate\<close>

definition IsValidRequest :: "Request \<Rightarrow> bool" where
  "IsValidRequest req =
     (Header_Get (Header req) ''Preload'' \<noteq> [] \<or>
      Header_Get (Header req) ''Fields'' \<noteq> [] \<or>
      Header_Get (Query req) ''preload'' \<noteq> [] \<or>
      Header_Get (Query req) ''fields'' \<noteq> [])"

definition IsValidResponse :: "Request \<Rightarrow> int \<Rightarrow> Header \<Rightarrow> bool" where
  "IsValidResponse req responseStatus responseHeaders =
     (if responseStatus < 200 \<or>
         responseStatus > 300 \<or>
         \<not> jsonRe_MatchString (Header_Get responseHeaders ''Content-Type'') \<or>
         notransformRe_MatchString (Header_Get responseHeaders ''Cache-Control'')
      then False
      else (case Header req ''Prefer'' of
              None \<Rightarrow> True
            | Some prefers \<Rightarrow> list_ex preferRe_MatchString prefers))"

section \<open>Collaborators\<close>

text \<open>
  \<^verbatim>\<open>httpsfv.List\<close>, reduced to the string value of each member.
\<close>

type_synonym List = "string list"

datatype error = Error string

text \<open>The two directive kinds, \<^verbatim>\<open>preload\<close> and \<^verbatim>\<open>fields\<close> in the source.\<close>

datatype Type = preload_t | fields_t

text \<open>
  Modelled from the spec: the selector node, whose type \<^verbatim>\<open>node\<close> is not among the sources.
  A node records which directives end at it, its path from the root (one entry per
  segment) and its children. \<open>node_String\<close> stands for \<^verbatim>\<open>n.String()\<close>, the path
  string of the node.
\<close>

datatype node = Node (n_preload: bool) (n_fields: bool) (n_path: "string list") (n_children: "node list")

definition node_String :: "node \<Rightarrow> string" where
  "node_String n = concat (map (\<lambda>s. ''/'' @ s) (n_path n))"

datatype pushError = errRelationAlreadyPushed | pushFailed string

datatype Route = Route string

text \<open>
  Modelled from the spec: what \<^verbatim>\<open>traverseJSON\<close>, which is not among the sources,
  gives \<open>Apply\<close>. The engine invokes the callback for the string values it
  selects, in document order, and builds a new value from the answers: a traversal is
  the list of those leaves, each with its node, and the body assembled from the
  handler's answers, one answer per leaf.
\<close>

type_synonym traversal = "(node \<times> string) list \<times> (string list \<Rightarrow> string)"

text \<open>
  The code this file calls and does not define, taken as parameters:
  \<^item> \<open>UnmarshalList\<close>, \<open>Marshal\<close>: package httpsfv; on failure \<open>UnmarshalList\<close> returns no
    member along with the error;
  \<^item> \<open>Parse\<close>: \<^verbatim>\<open>url.Parse\<close>;
  \<^item> \<open>importPointers\<close> and \<open>httpList\<close> of the node, \<open>urlRewriter\<close>, \<open>traverse\<close> (what
    \<^verbatim>\<open>traverseJSON\<close> selects and assembles), \<open>Push\<close> of the pusher and the constant
    \<open>internalRequestHeader\<close>: code of the repository that is not among the sources.
\<close>

record env =
  UnmarshalList :: "string list \<Rightarrow> error + List"
  Marshal :: "List \<Rightarrow> error + string"
  Parse :: "string \<Rightarrow> error + URL"
  importPointers :: "node \<Rightarrow> Type \<Rightarrow> List \<Rightarrow> node"
  httpList :: "node \<Rightarrow> Type \<Rightarrow> List"
  urlRewriter :: "URL \<Rightarrow> node \<Rightarrow> URL"
  traverse :: "string \<Rightarrow> node \<Rightarrow> bool \<Rightarrow> traversal"
  Push :: "waitPusher \<Rightarrow> string \<Rightarrow> Header \<Rightarrow> pushError option \<times> waitPusher"
  internalRequestHeader :: string

text \<open>
  The route description (\<^verbatim>\<open>openAPI\<close>, not among the sources), by its two lookups, and
  the fields of \<^verbatim>\<open>Vulcain\<close> that this file reads; \<open>maxPushes\<close> is
  \<^verbatim>\<open>v.pushers.maxPushes\<close>. The logger is left out.
\<close>

record openAPI =
  getRoute :: "URL \<Rightarrow> Route option"
  getRelation :: "Route \<Rightarrow> string \<Rightarrow> string \<Rightarrow> string"

record Vulcain =
  enableEarlyHints :: bool
  maxPushes :: int
  openAPI :: "openAPI option"
  apiUrl :: string

section \<open>Directives\<close>

record directives =
  d_fields :: List
  d_preload :: List
  fieldsHeader :: bool
  fieldsQuery :: bool
  preloadHeader :: bool
  preloadQuery :: bool

definition extractFromRequest :: "env \<Rightarrow> Request \<Rightarrow> directives" where
  "extractFromRequest E req =
     (let query = Query req;
          (f, fH) =
             (if length (index (Header req) ''Fields'') > 0
              then (case UnmarshalList E (index (Header req) ''Fields'') of
                      Inr l \<Rightarrow> (l, True) | Inl e \<Rightarrow> ([], False))
              else ([], False));
          (f, fQ) =
             (if \<not> fH \<and> length (index query ''fields'') > 0
              then (case UnmarshalList E (index query ''fields'') of
                      Inr l \<Rightarrow> (l, True) | Inl e \<Rightarrow> ([], False))
              else (f, False));
          (p, pH) =
             (if length (index (Header req) ''Preload'') > 0
              then (case UnmarshalList E (index (Header req) ''Preload'') of
                      Inr l \<Rightarrow> (l, True) | Inl e \<Rightarrow> ([], False))
              else ([], False));
          (p, pQ) =
             (if \<not> pH \<and> length (index query ''preload'') > 0
              then (case UnmarshalList E (index query ''preload'') of
                      Inr l \<Rightarrow> (l, True) | Inl e \<Rightarrow> ([], False))
              else (p, False))
      in \<lparr>d_fields = f, d_preload = p, fieldsHeader = fH, fieldsQuery = fQ,
          preloadHeader = pH, preloadQuery = pQ\<rparr>)"

section \<open>Relations\<close>

definition getOpenAPIRoute :: "Vulcain \<Rightarrow> URL \<Rightarrow> Route option \<Rightarrow> bool \<Rightarrow> Route option" where
  "getOpenAPIRoute v url route routeTested =
     (if routeTested then route
      else (case openAPI v of None \<Rightarrow> route | Some oa \<Rightarrow> getRoute oa url))"

text \<open>
  A Go panic is the value \<open>Panics\<close>; a call that comes back is \<open>Returns\<close>.
\<close>

datatype 'a exec = Panics | Returns 'a

text \<open>
  \<open>parseRelation\<close> returns \<open>Inl\<close> of the error when the relation is not a URL, and the
  URL with \<open>useOA\<close> otherwise. \<open>oaRoute\<close> is set only by \<open>getOpenAPIRoute\<close>, hence only
  when \<open>v.openAPI\<close> is; the call on a nil \<open>v.openAPI\<close> is modelled as a panic.
\<close>

definition parseRelation ::
  "env \<Rightarrow> Vulcain \<Rightarrow> string \<Rightarrow> string \<Rightarrow> Route option \<Rightarrow> (error + URL \<times> bool) exec" where
  "parseRelation E v selector rel oaRoute =
     (case (case oaRoute of
              None \<Rightarrow> Returns (rel, False)
            | Some r \<Rightarrow> (case openAPI v of
                 None \<Rightarrow> Panics
               | Some oa \<Rightarrow> (let oaRel = getRelation oa r selector rel
                             in if oaRel \<noteq> [] then Returns (oaRel, True) else Returns (rel, False))))
      of Panics \<Rightarrow> Panics
       | Returns (rel, useOA) \<Rightarrow>
           (case Parse E rel of
              Inr u \<Rightarrow> Returns (Inr (u, useOA))
            | Inl e \<Rightarrow> Returns (Inl e)))"

section \<open>Pushing, and the preload link as a fallback\<close>

definition addPreloadHeader :: "Vulcain \<Rightarrow> Header \<Rightarrow> string \<Rightarrow> bool \<Rightarrow> Header" where
  "addPreloadHeader v h link nopush =
     (let suffix = (if nopush then ''; nopush'' else []);
          link = (if length (apiUrl v) > 0 then apiUrl v @ link else link)
      in Header_Add h ''Link'' (''<'' @ link @ ''>; rel=preload; as=fetch'' @ suffix))"

text \<open>The headers of the pushed request, \<^verbatim>\<open>pushOptions.Header\<close>.\<close>

definition pushOptions :: "env \<Rightarrow> Request \<Rightarrow> waitPusher \<Rightarrow> node \<Rightarrow> bool \<Rightarrow> bool \<Rightarrow> Header" where
  "pushOptions E req pusher n preloadH fieldsH =
     (let h = Header req;
          h = Header_Set h (internalRequestHeader E) (pusher_id pusher);
          h = Header_Del h ''Preload'';
          h = Header_Del h ''Fields'';
          h = Header_Del h ''Te'';
          h = (if preloadH \<and> length (httpList E n preload_t) > 0
               then (case Marshal E (httpList E n preload_t) of
                       Inr s \<Rightarrow> Header_Set h ''Preload'' s | Inl e \<Rightarrow> h)
               else h);
          h = (if fieldsH \<and> length (httpList E n fields_t) > 0
               then (case Marshal E (httpList E n fields_t) of
                       Inr s \<Rightarrow> Header_Set h ''Fields'' s | Inl e \<Rightarrow> h)
               else h)
      in h)"

text \<open>
  \<open>push\<close> returns whether the relation counts as pushed, the response headers and the
  context value, whose pusher \<open>Push\<close> may have changed. The type assertion on the
  context value has no \<^verbatim>\<open>ok\<close> result: with no value in the context it panics.
\<close>

definition push ::
  "env \<Rightarrow> Vulcain \<Rightarrow> URL \<Rightarrow> Request \<Rightarrow> Header \<Rightarrow> node \<Rightarrow> bool \<Rightarrow> bool
     \<Rightarrow> (bool \<times> Header \<times> ctxValue) exec" where
  "push E v u req newHeaders n preloadH fieldsH =
     (let url = URL_String u in
      if maxPushes v = 0 \<or> IsAbs u
      then Returns (False, addPreloadHeader v newHeaders url True, Context req)
      else (case Context req of
              NoValue \<Rightarrow> Panics
            | Pusher None \<Rightarrow> Returns (False, addPreloadHeader v newHeaders url False, Context req)
            | Pusher (Some pusher) \<Rightarrow>
                (case Push E pusher url (pushOptions E req pusher n preloadH fieldsH) of
                   (Some err, pusher') \<Rightarrow>
                     if err = errRelationAlreadyPushed
                     then Returns (True, newHeaders, Pusher (Some pusher'))
                     else Returns (False, addPreloadHeader v newHeaders url False, Pusher (Some pusher'))
                 | (None, pusher') \<Rightarrow> Returns (True, newHeaders, Pusher (Some pusher')))))"

section \<open>Apply\<close>

text \<open>
  The variables the relation handler shares with \<open>Apply\<close>: the four it captures
  (\<open>oaRoute\<close>, \<open>oaRouteTested\<close>, \<open>usePreloadLinks\<close>, \<open>err\<close>), the response headers it
  adds links to, and the context value, whose pusher a push changes.
\<close>

record locals =
  oaRoute :: "Route option"
  oaRouteTested :: bool
  usePreloadLinks :: bool
  err :: "error option"
  headers :: Header
  ctx :: ctxValue

definition relationHandler ::
  "env \<Rightarrow> Vulcain \<Rightarrow> Request \<Rightarrow> directives \<Rightarrow> node \<Rightarrow> string \<Rightarrow> locals
     \<Rightarrow> (string \<times> locals) exec" where
  "relationHandler E v req d n val st =
     (let st = st\<lparr>oaRoute := getOpenAPIRoute v (URL req) (oaRoute st) (oaRouteTested st),
                  oaRouteTested := True\<rparr>
      in case parseRelation E v (node_String n) val (oaRoute st) of
           Panics \<Rightarrow> Panics
         | Returns (Inl e) \<Rightarrow> Returns ([], st\<lparr>err := Some e\<rparr>)
         | Returns (Inr (u, useOA)) \<Rightarrow>
             (let st = st\<lparr>err := None\<rparr>;
                  (u, newValue) =
                     (if (preloadQuery d \<or> fieldsQuery d) \<and> \<not> useOA
                      then (let u' = urlRewriter E u n in (u', URL_String u'))
                      else (u, []))
              in if n_preload n
                 then (case push E v u (req\<lparr>Context := ctx st\<rparr>) (headers st) n
                              (preloadHeader d) (fieldsHeader d) of
                         Panics \<Rightarrow> Panics
                       | Returns (ok, h, c) \<Rightarrow>
                           Returns (newValue,
                                    st\<lparr>usePreloadLinks := \<not> ok, headers := h, ctx := c\<rparr>))
                 else Returns (newValue, st)))"

text \<open>
  Modelled from the spec: \<^verbatim>\<open>traverseJSON\<close>. It calls the handler on each
  leaf of the traversal in turn, every call seeing the variables as the call before
  left them, and assembles the new body from the answers. A panic of the handler ends
  it.
\<close>

fun handleAll ::
  "(node \<Rightarrow> string \<Rightarrow> locals \<Rightarrow> (string \<times> locals) exec) \<Rightarrow> (node \<times> string) list \<Rightarrow> locals
     \<Rightarrow> (string list \<times> locals) exec" where
  "handleAll handler [] st = Returns ([], st)"
| "handleAll handler ((n, val) # leaves) st =
     (case handler n val st of
        Panics \<Rightarrow> Panics
      | Returns (a, st') \<Rightarrow>
          (case handleAll handler leaves st' of
             Panics \<Rightarrow> Panics
           | Returns (as, st'') \<Rightarrow> Returns (a # as, st'')))"

definition traverseJSON ::
  "env \<Rightarrow> string \<Rightarrow> node \<Rightarrow> bool \<Rightarrow> (node \<Rightarrow> string \<Rightarrow> locals \<Rightarrow> (string \<times> locals) exec)
     \<Rightarrow> locals \<Rightarrow> (string \<times> locals) exec" where
  "traverseJSON E currentRawJSON tree filter_on handler st =
     (case traverse E currentRawJSON tree filter_on of
        (leaves, assemble) \<Rightarrow>
          (case handleAll handler leaves st of
             Panics \<Rightarrow> Panics
           | Returns (as, st') \<Rightarrow> Returns (assemble as, st')))"

text \<open>\<^verbatim>\<open>strconv.Itoa\<close> on a length.\<close>

fun Itoa :: "nat \<Rightarrow> string" where
  "Itoa n = (if n < 10 then [char_of (48 + n)] else Itoa (n div 10) @ [char_of (48 + n mod 10)])"

declare Itoa.simps [simp del]

text \<open>
  The response writer: whether \<^verbatim>\<open>rw.Header()\<close> is the very map \<open>responseHeaders\<close>
  (it is not behind the built-in reverse proxy), its own header map otherwise, and the
  \<^verbatim>\<open>WriteHeader\<close> calls so far, each with the header map at that moment.
\<close>

record ResponseWriter =
  shared :: bool
  ownHeader :: Header
  wrote :: "(nat \<times> Header) list"

text \<open>
  The 103 response of \<open>Apply\<close>, sent when early hints are enabled: when the writer's
  headers have no \<^verbatim>\<open>Link\<close> key they borrow the one of \<open>responseHeaders\<close> for the time of
  the \<^verbatim>\<open>WriteHeader\<close> call. The result is the writer and \<open>responseHeaders\<close> afterwards.
\<close>

definition earlyHints :: "ResponseWriter \<Rightarrow> Header \<Rightarrow> ResponseWriter \<times> Header" where
  "earlyHints rw responseHeaders =
     (let h = (if shared rw then responseHeaders else ownHeader rw);
          ok = (h ''Link'' \<noteq> None);
          h = (if \<not> ok then h(''Link'' \<mapsto> index responseHeaders ''Link'') else h);
          rw = rw\<lparr>wrote := wrote rw @ [(103, h)]\<rparr>;
          h = (if \<not> ok then Header_Del h ''Link'' else h)
      in if shared rw then (rw, h) else (rw\<lparr>ownHeader := h\<rparr>, responseHeaders))"

text \<open>
  What \<open>Apply\<close> leaves behind: the two values it returns, the response headers, the
  response writer and the context value.
\<close>

record applied =
  a_body :: "string option"
  a_error :: "error option"
  a_headers :: Header
  a_writer :: ResponseWriter
  a_context :: ctxValue

definition Apply ::
  "env \<Rightarrow> Vulcain \<Rightarrow> Request \<Rightarrow> ResponseWriter \<Rightarrow> error + string \<Rightarrow> Header \<Rightarrow> applied exec" where
  "Apply E v req rw responseBody responseHeaders =
     (let d = extractFromRequest E req in
      case responseBody of
        Inl e \<Rightarrow> Returns \<lparr>a_body = None, a_error = Some e, a_headers = responseHeaders,
                           a_writer = rw, a_context = Context req\<rparr>
      | Inr currentBody \<Rightarrow>
          (let tree = Node False False [] [];
               tree = importPointers E tree preload_t (d_preload d);
               tree = importPointers E tree fields_t (d_fields d)
           in case traverseJSON E currentBody tree (length (d_fields d) > 0)
                     (relationHandler E v req d)
                     \<lparr>oaRoute = None, oaRouteTested = False, usePreloadLinks = False,
                      err = None, headers = responseHeaders, ctx = Context req\<rparr> of
                Panics \<Rightarrow> Panics
              | Returns (newBody, st) \<Rightarrow>
                  (let (rw, hs) =
                         (if usePreloadLinks st
                          then (case (if enableEarlyHints v then earlyHints rw (headers st)
                                      else (rw, headers st)) of
                                  (rw, hs) \<Rightarrow> (rw, Header_Add hs ''Vary'' ''Preload''))
                          else (rw, headers st));
                       hs = Header_Set hs ''Content-Length'' (Itoa (length newBody));
                       hs = (if fieldsHeader d then Header_Add hs ''Vary'' ''Fields'' else hs)
                   in Returns \<lparr>a_body = Some newBody, a_error = None, a_headers = hs,
                               a_writer = rw, a_context = ctx st\<rparr>)))"

subsection \<open>What Apply did\<close>

text \<open>
  The value \<open>push\<close> returns when the handler calls it on a leaf, read off the handler:
  \<open>None\<close> when the handler does not call \<open>push\<close> there (the relation is not a URL, or
  the node is not preload-selected) or when the call panics.
\<close>

definition pushReturn ::
  "env \<Rightarrow> Vulcain \<Rightarrow> Request \<Rightarrow> directives \<Rightarrow> node \<Rightarrow> string \<Rightarrow> locals \<Rightarrow> bool option" where
  "pushReturn E v req d n val st =
     (case parseRelation E v (node_String n) val
             (getOpenAPIRoute v (URL req) (oaRoute st) (oaRouteTested st)) of
        Returns (Inr (u, useOA)) \<Rightarrow>
          if n_preload n
          then (case push E v
                       (if (preloadQuery d \<or> fieldsQuery d) \<and> \<not> useOA then urlRewriter E u n else u)
                       (req\<lparr>Context := ctx st\<rparr>) (headers st) n (preloadHeader d) (fieldsHeader d) of
                  Returns (ok, h, c) \<Rightarrow> Some ok
                | Panics \<Rightarrow> None)
          else None
      | _ \<Rightarrow> None)"

text \<open>The values \<open>push\<close> returned over a run of the handler, in order.\<close>

fun pushReturns ::
  "env \<Rightarrow> Vulcain \<Rightarrow> Request \<Rightarrow> directives \<Rightarrow> (node \<times> string) list \<Rightarrow> locals \<Rightarrow> bool list" where
  "pushReturns E v req d [] st = []"
| "pushReturns E v req d ((n, val) # ls) st =
     (case relationHandler E v req d n val st of
        Panics \<Rightarrow> []
      | Returns (a, st') \<Rightarrow>
          (case pushReturn E v req d n val st of None \<Rightarrow> [] | Some ok \<Rightarrow> [ok])
            @ pushReturns E v req d ls st')"

text \<open>
  The leaves \<open>Apply\<close> runs the handler on, the variables it starts from, and the
  values \<open>push\<close> returned during the call.
\<close>

definition Apply_leaves :: "env \<Rightarrow> Request \<Rightarrow> string \<Rightarrow> (node \<times> string) list" where
  "Apply_leaves E req currentBody =
     (let d = extractFromRequest E req;
          tree = Node False False [] [];
          tree = importPointers E tree preload_t (d_preload d);
          tree = importPointers E tree fields_t (d_fields d)
      in fst (traverse E currentBody tree (length (d_fields d) > 0)))"

definition Apply_locals :: "Request \<Rightarrow> Header \<Rightarrow> locals" where
  "Apply_locals req responseHeaders =
     \<lparr>oaRoute = None, oaRouteTested = False, usePreloadLinks = False,
      err = None, headers = responseHeaders, ctx = Context req\<rparr>"

definition Apply_pushes :: "env \<Rightarrow> Vulcain \<Rightarrow> Request \<Rightarrow> string \<Rightarrow> Header \<Rightarrow> bool list" where
  "Apply_pushes E v req currentBody responseHeaders =
     pushReturns E v req (extractFromRequest E req) (Apply_leaves E req currentBody)
       (Apply_locals req responseHeaders)"





text \<open>
  Readers of what a call left behind; a call that panicked has returned no error, no
  body and no header.
\<close>

definition returned :: "'a exec \<Rightarrow> bool" where
  "returned x = (case x of Panics \<Rightarrow> False | Returns r \<Rightarrow> True)"

definition returnedError :: "applied exec \<Rightarrow> error option" where
  "returnedError x = (case x of Panics \<Rightarrow> None | Returns r \<Rightarrow> a_error r)"

definition returnedBody :: "applied exec \<Rightarrow> string option" where
  "returnedBody x = (case x of Panics \<Rightarrow> None | Returns r \<Rightarrow> a_body r)"

definition returnedHeader :: "applied exec \<Rightarrow> string \<Rightarrow> string list" where
  "returnedHeader x k = (case x of Panics \<Rightarrow> [] | Returns r \<Rightarrow> index (a_headers r) k)"

section \<open>The collaborators, for concrete requests\<close>

text \<open>
  The theorems below hold for every choice of the parameters in \<open>env\<close>. To run
  \<open>Apply\<close> on a concrete request the parameters need values; this section gives them.
\<close>

subsection \<open>Structured field lists and URLs\<close>

definition dq :: char where
  "dq = CHR 0x22"

definition quoted :: "string \<Rightarrow> string" where
  "quoted s = dq # s @ [dq]"

fun join :: "string \<Rightarrow> string list \<Rightarrow> string" where
  "join sep [] = []"
| "join sep [v] = v"
| "join sep (v # w # vs) = v @ sep @ join sep (w # vs)"

text \<open>
  The list grammar of structured field values, restricted to string members without
  parameters: the header lines are joined with a comma, members are separated by a
  comma with optional spaces, and a string is a quoted run of printable characters in
  which only the quote and the backslash are escaped. Everything else is an error.
\<close>

datatype scan = Start | NeedItem | InString string | Escaped string | AfterItem

fun scanList :: "scan \<Rightarrow> List \<Rightarrow> string \<Rightarrow> error + List" where
  "scanList st acc [] =
     (case st of
        Start \<Rightarrow> Inr (rev acc)
      | AfterItem \<Rightarrow> Inr (rev acc)
      | _ \<Rightarrow> Inl (Error ''unexpected end of list''))"
| "scanList st acc (c # s) =
     (case st of
        Start \<Rightarrow>
          if c = CHR '' '' then scanList Start acc s
          else if c = dq then scanList (InString []) acc s
          else Inl (Error ''unsupported member'')
      | NeedItem \<Rightarrow>
          if c = CHR '' '' \<or> c = CHR 0x09 then scanList NeedItem acc s
          else if c = dq then scanList (InString []) acc s
          else Inl (Error ''unsupported member'')
      | InString w \<Rightarrow>
          if c = dq then scanList AfterItem (rev w # acc) s
          else if c = CHR 0x5C then scanList (Escaped w) acc s
          else if 32 \<le> (of_char c :: nat) \<and> (of_char c :: nat) \<le> 126
               then scanList (InString (c # w)) acc s
          else Inl (Error ''invalid string character'')
      | Escaped w \<Rightarrow>
          if c = dq \<or> c = CHR 0x5C then scanList (InString (c # w)) acc s
          else Inl (Error ''invalid escape'')
      | AfterItem \<Rightarrow>
          if c = CHR '' '' \<or> c = CHR 0x09 then scanList AfterItem acc s
          else if c = CHR '','' then scanList NeedItem acc s
          else Inl (Error ''unsupported parameter''))"

definition stringList_Unmarshal :: "string list \<Rightarrow> error + List" where
  "stringList_Unmarshal v = scanList Start [] (join '','' v)"

definition escape :: "string \<Rightarrow> string" where
  "escape s = concat (map (\<lambda>c. if c = dq \<or> c = CHR 0x5C then [CHR 0x5C, c] else [c]) s)"

definition stringList_Marshal :: "List \<Rightarrow> error + string" where
  "stringList_Marshal l = Inr (join '', '' (map (\<lambda>m. quoted (escape m)) l))"

text \<open>
  The part of \<^verbatim>\<open>url.Parse\<close> that relations exercise: a control character is an error;
  the scheme is the run of letters, digits, plus, minus and dot before the first
  colon, when that run starts with a letter, and it is stored in lower case
  (\<^verbatim>\<open>strings.ToLower\<close>, here on ASCII letters); a colon in first position is the
  error \<^verbatim>\<open>missing protocol scheme\<close>; without a scheme, a colon in the first path
  segment is an error too.
\<close>

definition isLetter :: "char \<Rightarrow> bool" where
  "isLetter c = (let n = of_char c :: nat in (65 \<le> n \<and> n \<le> 90) \<or> (97 \<le> n \<and> n \<le> 122))"

fun getScheme :: "string \<Rightarrow> string \<Rightarrow> error + string \<times> string" where
  "getScheme seen [] = Inr ([], rev seen)"
| "getScheme seen (c # s) =
     (if isLetter c then getScheme (c # seen) s
      else if isWordChar c \<and> c \<noteq> CHR ''_'' \<or> c = CHR ''+'' \<or> c = CHR ''-'' \<or> c = CHR ''.''
           then (if seen = [] then Inr ([], c # s) else getScheme (c # seen) s)
      else if c = CHR '':''
           then (if seen = [] then Inl (Error ''missing protocol scheme'') else Inr (rev seen, s))
      else Inr ([], rev seen @ c # s))"

definition ToLower :: "string \<Rightarrow> string" where
  "ToLower s = map (\<lambda>c. if 65 \<le> (of_char c :: nat) \<and> (of_char c :: nat) \<le> 90
                        then char_of ((of_char c :: nat) + 32) else c) s"

definition simple_Parse :: "string \<Rightarrow> error + URL" where
  "simple_Parse rawURL =
     (if list_ex (\<lambda>c. (of_char c :: nat) < 32 \<or> (of_char c :: nat) = 127) rawURL
      then Inl (Error ''invalid control character in URL'')
      else (case getScheme [] rawURL of
              Inl e \<Rightarrow> Inl e
            | Inr (scheme, rest) \<Rightarrow>
                if scheme = [] \<and> \<not> hasPrefix rest ''/'' \<and>
                   CHR '':'' \<in> set (takeWhile (\<lambda>c. c \<noteq> CHR ''/'') rest)
                then Inl (Error ''first path segment in URL cannot contain colon'')
                else Inr \<lparr>Scheme = ToLower scheme, Rest = rest\<rparr>))"

subsection \<open>The selector tree\<close>

text \<open>
  Modelled from the spec: \<^verbatim>\<open>importPointers\<close> of the node (the spec's \<^verbatim>\<open>build\<close>), which is
  not among the sources. Each path of the list is slash-delimited; for each path the
  nodes of its segments are walked or created, and only the terminal node is tagged
  with the directive the path came from.
\<close>

fun segments :: "string \<Rightarrow> string \<Rightarrow> string list" where
  "segments cur [] = [rev cur]"
| "segments cur (c # s) = (if c = CHR ''/'' then rev cur # segments [] s else segments (c # cur) s)"

definition pointerSegments :: "string \<Rightarrow> string list" where
  "pointerSegments p = (case segments [] p of [] # segs \<Rightarrow> segs | segs \<Rightarrow> segs)"

fun insertPointer :: "Type \<Rightarrow> string list \<Rightarrow> node \<Rightarrow> node" where
  "insertPointer t [] (Node p f path cs) =
     (case t of preload_t \<Rightarrow> Node True f path cs | fields_t \<Rightarrow> Node p True path cs)"
| "insertPointer t (seg # segs) (Node p f path cs) =
     (if list_ex (\<lambda>c. n_path c = path @ [seg]) cs
      then Node p f path (map (\<lambda>c. if n_path c = path @ [seg] then insertPointer t segs c else c) cs)
      else Node p f path (cs @ [insertPointer t segs (Node False False (path @ [seg]) [])]))"

definition tree_importPointers :: "node \<Rightarrow> Type \<Rightarrow> List \<Rightarrow> node" where
  "tree_importPointers tree t pointers =
     fold (\<lambda>p n. insertPointer t (pointerSegments p) n) pointers tree"

text \<open>
  Modelled from the spec: \<^verbatim>\<open>matchChild\<close>, literal lookup first, wildcard fallback
  second.
\<close>

definition matchChild :: "node \<Rightarrow> string \<Rightarrow> node option" where
  "matchChild n seg =
     (case find (\<lambda>c. n_path c = n_path n @ [seg]) (n_children n) of
        Some c \<Rightarrow> Some c
      | None \<Rightarrow> find (\<lambda>c. n_path c = n_path n @ [''*'']) (n_children n))"

definition childOf :: "node option \<Rightarrow> string \<Rightarrow> node option" where
  "childOf cur seg = (case cur of None \<Rightarrow> None | Some n \<Rightarrow> matchChild n seg)"

subsection \<open>The traversal\<close>

text \<open>
  Modelled from the spec: the traversal of \<^verbatim>\<open>traverseJSON\<close>, which is not among the sources, on
  a JSON value as a tagged variant. The current selector node is carried along, or no
  node once the tree has no matching branch. The handler is called on every string
  whose current node is preload-selected, in document order. With \<open>filter_on\<close> a
  member is kept only when a node matches it, and everything below a fields-selected
  node is kept.
\<close>

datatype json =
  JNull | JBool bool | JNumber int | JString string | JArray "json list" | JObject "(string \<times> json) list"

text \<open>
  Modelled from the spec: what \<^verbatim>\<open>traverseJSON\<close> puts in the place of a string
  for which the handler answered. A non-empty answer replaces the literal string; after
  an empty one the original string value is preserved.
\<close>

definition spliceValue :: "string \<Rightarrow> string \<Rightarrow> string" where
  "spliceValue val newValue = (if newValue = [] then val else newValue)"

definition below :: "bool \<Rightarrow> node option \<Rightarrow> bool" where
  "below filter_on c = (filter_on \<and> (case c of None \<Rightarrow> True | Some n \<Rightarrow> \<not> n_fields n))"

fun leaves :: "node option \<Rightarrow> json \<Rightarrow> (node \<times> string) list"
  and leavesArray :: "node option \<Rightarrow> nat \<Rightarrow> json list \<Rightarrow> (node \<times> string) list"
  and leavesObject :: "node option \<Rightarrow> (string \<times> json) list \<Rightarrow> (node \<times> string) list" where
  "leaves cur (JString s) =
     (case cur of None \<Rightarrow> [] | Some n \<Rightarrow> if n_preload n then [(n, s)] else [])"
| "leaves cur (JArray xs) = leavesArray cur 0 xs"
| "leaves cur (JObject ms) = leavesObject cur ms"
| "leaves cur JNull = []"
| "leaves cur (JBool b) = []"
| "leaves cur (JNumber i) = []"
| "leavesArray cur i [] = []"
| "leavesArray cur i (x # xs) = leaves (childOf cur (Itoa i)) x @ leavesArray cur (Suc i) xs"
| "leavesObject cur [] = []"
| "leavesObject cur ((k, x) # ms) = leaves (childOf cur k) x @ leavesObject cur ms"

fun rebuild :: "bool \<Rightarrow> node option \<Rightarrow> json \<Rightarrow> string list \<Rightarrow> json \<times> string list"
  and rebuildArray ::
    "bool \<Rightarrow> node option \<Rightarrow> nat \<Rightarrow> json list \<Rightarrow> string list \<Rightarrow> json list \<times> string list"
  and rebuildObject ::
    "bool \<Rightarrow> node option \<Rightarrow> (string \<times> json) list \<Rightarrow> string list
       \<Rightarrow> (string \<times> json) list \<times> string list" where
  "rebuild filter_on cur (JString s) answers =
     (case cur of
        None \<Rightarrow> (JString s, answers)
      | Some n \<Rightarrow>
          if n_preload n
          then (case answers of [] \<Rightarrow> (JString s, []) | a # rest \<Rightarrow> (JString (spliceValue s a), rest))
          else (JString s, answers))"
| "rebuild filter_on cur (JArray xs) answers =
     (case rebuildArray filter_on cur 0 xs answers of (ys, rest) \<Rightarrow> (JArray ys, rest))"
| "rebuild filter_on cur (JObject ms) answers =
     (case rebuildObject filter_on cur ms answers of (ns, rest) \<Rightarrow> (JObject ns, rest))"
| "rebuild filter_on cur JNull answers = (JNull, answers)"
| "rebuild filter_on cur (JBool b) answers = (JBool b, answers)"
| "rebuild filter_on cur (JNumber i) answers = (JNumber i, answers)"
| "rebuildArray filter_on cur i [] answers = ([], answers)"
| "rebuildArray filter_on cur i (x # xs) answers =
     (let c = childOf cur (Itoa i) in
      if filter_on \<and> c = None then rebuildArray filter_on cur (Suc i) xs answers
      else (case rebuild (below filter_on c) c x answers of
              (y, rest) \<Rightarrow>
                (case rebuildArray filter_on cur (Suc i) xs rest of
                   (ys, rest') \<Rightarrow> (y # ys, rest'))))"
| "rebuildObject filter_on cur [] answers = ([], answers)"
| "rebuildObject filter_on cur ((k, x) # ms) answers =
     (let c = childOf cur k in
      if filter_on \<and> c = None then rebuildObject filter_on cur ms answers
      else (case rebuild (below filter_on c) c x answers of
              (y, rest) \<Rightarrow>
                (case rebuildObject filter_on cur ms rest of
                   (ns, rest') \<Rightarrow> ((k, y) # ns, rest'))))"


text \<open>The document as bytes, without insignificant white space.\<close>

fun encode :: "json \<Rightarrow> string"
  and encodeArray :: "json list \<Rightarrow> string"
  and encodeObject :: "(string \<times> json) list \<Rightarrow> string" where
  "encode JNull = ''null''"
| "encode (JBool b) = (if b then ''true'' else ''false'')"
| "encode (JNumber i) = (if i < 0 then ''-'' @ Itoa (nat (- i)) else Itoa (nat i))"
| "encode (JString s) = quoted (escape s)"
| "encode (JArray xs) = ''['' @ encodeArray xs @ '']''"
| "encode (JObject ms) = ''{'' @ encodeObject ms @ ''}''"
| "encodeArray [] = []"
| "encodeArray [x] = encode x"
| "encodeArray (x # y # xs) = encode x @ '','' @ encodeArray (y # xs)"
| "encodeObject [] = []"
| "encodeObject [(k, x)] = quoted (escape k) @ '':'' @ encode x"
| "encodeObject ((k, x) # m # ms) = quoted (escape k) @ '':'' @ encode x @ '','' @ encodeObject (m # ms)"

text \<open>
  Decoding the body is left out: the traversal is given the document, and a body that
  is not the bytes of that document comes back as it is, no leaf visited.
\<close>

definition document_traverse :: "json \<Rightarrow> string \<Rightarrow> node \<Rightarrow> bool \<Rightarrow> traversal" where
  "document_traverse doc body tree filter_on =
     (if body = encode doc
      then (leaves (Some tree) doc, \<lambda>answers. encode (fst (rebuild filter_on (Some tree) doc answers)))
      else ([], \<lambda>answers. body))"

subsection \<open>The push ledger\<close>

text \<open>
  Modelled from the spec: \<^verbatim>\<open>Push\<close> of the pusher, which is not among the sources. A
  relation already in the ledger is the already-pushed outcome; otherwise it is
  registered and the transport is asked to initiate the push, which it may refuse.
\<close>

definition ledger_Push ::
  "(string \<Rightarrow> bool) \<Rightarrow> waitPusher \<Rightarrow> string \<Rightarrow> Header \<Rightarrow> pushError option \<times> waitPusher" where
  "ledger_Push initiatePush pusher url h =
     (if url \<in> set (pushed pusher) then (Some errRelationAlreadyPushed, pusher)
      else if initiatePush url then (None, pusher\<lparr>pushed := pushed pusher @ [url]\<rparr>)
      else (Some (pushFailed ''push refused''), pusher\<lparr>pushed := pushed pusher @ [url]\<rparr>))"

text \<open>
  Modelled from the spec: \<^verbatim>\<open>httpList\<close> and \<^verbatim>\<open>urlRewriter\<close>, which are not among the
  sources. The spec strips the directive headers of a pushed request and names none
  that it carries on, and it names no change to a resolved URL: \<open>httpList\<close> is empty
  and \<open>urlRewriter\<close> returns the URL it is given. The name of the correlation header
  is not in the spec either; any name serves. With them, the environment of a document
  and a transport.
\<close>

definition specEnv :: "json \<Rightarrow> (string \<Rightarrow> bool) \<Rightarrow> env" where
  "specEnv doc initiatePush =
     \<lparr>UnmarshalList = stringList_Unmarshal,
      Marshal = stringList_Marshal,
      Parse = simple_Parse,
      importPointers = tree_importPointers,
      httpList = (\<lambda>n t. []),
      urlRewriter = (\<lambda>u n. u),
      traverse = document_traverse doc,
      Push = ledger_Push initiatePush,
      internalRequestHeader = ''Vulcain-Explicit-Request''\<rparr>"

subsection \<open>The scenarios of the spec\<close>

text \<open>
  \<open>New()\<close> without options: no early hints, no limit on pushes (\<open>-1\<close>), no route
  description, no base URL.
\<close>

definition defaultVulcain :: Vulcain where
  "defaultVulcain = \<lparr>enableEarlyHints = False, maxPushes = - 1, openAPI = None, apiUrl = []\<rparr>"

definition freshPusher :: waitPusher where
  "freshPusher = \<lparr>pusher_id = ''1'', pushed = []\<rparr>"

text \<open>The documents \<^verbatim>\<open>{"author":"/users/5"}\<close> and \<^verbatim>\<open>{"id":1,"author":"/users/5","title":"t"}\<close>.\<close>

definition authorDocument :: json where
  "authorDocument = JObject [(''author'', JString ''/users/5'')]"

definition bookDocument :: json where
  "bookDocument = JObject [(''id'', JNumber 1), (''author'', JString ''/users/5''), (''title'', JString ''t'')]"

definition bookURL :: URL where
  "bookURL = \<lparr>Scheme = [], Rest = ''/books/1''\<rparr>"

text \<open>Requests for \<^verbatim>\<open>/books/1\<close> whose context CreateRequestContext has filled.\<close>

definition preloadHeaderRequest :: Request where
  "preloadHeaderRequest =
     \<lparr>Header = [''Preload'' \<mapsto> [quoted ''/author'']], Query = Map.empty, URL = bookURL,
      Context = Pusher (Some freshPusher)\<rparr>"


definition fieldsHeaderRequest :: Request where
  "fieldsHeaderRequest =
     \<lparr>Header = [''Fields'' \<mapsto> [quoted ''/title'']], Query = Map.empty, URL = bookURL,
      Context = Pusher (Some freshPusher)\<rparr>"

text \<open>
  Requests whose \<^verbatim>\<open>Fields\<close> and \<^verbatim>\<open>Preload\<close> headers each hold a string that is not
  closed, with and without well-formed query parameters; and a request with both forms
  of both directives well-formed.
\<close>

definition brokenHeaderRequest :: Request where
  "brokenHeaderRequest =
     \<lparr>Header = [''Fields'' \<mapsto> [dq # ''/id''], ''Preload'' \<mapsto> [dq # ''/title'']],
      Query = [''fields'' \<mapsto> [quoted ''/title''], ''preload'' \<mapsto> [quoted ''/author'']],
      URL = bookURL, Context = Pusher (Some freshPusher)\<rparr>"

definition brokenOnlyRequest :: Request where
  "brokenOnlyRequest =
     \<lparr>Header = [''Fields'' \<mapsto> [dq # ''/id''], ''Preload'' \<mapsto> [dq # ''/title'']],
      Query = Map.empty, URL = bookURL, Context = Pusher (Some freshPusher)\<rparr>"

definition bothFormsRequest :: Request where
  "bothFormsRequest =
     \<lparr>Header = [''Fields'' \<mapsto> [quoted ''/id''], ''Preload'' \<mapsto> [quoted ''/title'']],
      Query = [''fields'' \<mapsto> [quoted ''/title''], ''preload'' \<mapsto> [quoted ''/author'']],
      URL = bookURL, Context = Pusher (Some freshPusher)\<rparr>"

text \<open>A request whose two query parameters each hold a string that is not closed.\<close>

definition brokenQueryRequest :: Request where
  "brokenQueryRequest =
     \<lparr>Header = Map.empty,
      Query = [''fields'' \<mapsto> [dq # ''/id''], ''preload'' \<mapsto> [dq # ''/title'']],
      URL = bookURL, Context = Pusher (Some freshPusher)\<rparr>"

definition directWriter :: ResponseWriter where
  "directWriter = \<lparr>shared = True, ownHeader = Map.empty, wrote = []\<rparr>"

definition jsonHeaders :: Header where
  "jsonHeaders = [''Content-Type'' \<mapsto> [''application/json'']]"

text \<open>The node of \<^verbatim>\<open>/author\<close>, preload-selected, and the relation \<^verbatim>\<open>/users/5\<close>.\<close>

definition authorNode :: node where
  "authorNode = Node True False [''author''] []"

definition user5 :: URL where
  "user5 = \<lparr>Scheme = [], Rest = ''/users/5''\<rparr>"

text \<open>
  The environments of the two documents over a transport that initiates every push, and
  of the first over a transport that refuses every push.
\<close>

definition authorEnv :: env where
  "authorEnv = specEnv authorDocument (\<lambda>url. True)"

definition bookEnv :: env where
  "bookEnv = specEnv bookDocument (\<lambda>url. True)"

definition refusingEnv :: env where
  "refusingEnv = specEnv authorDocument (\<lambda>url. False)"

text \<open>
  The document \<^verbatim>\<open>{"author":":users"}\<close>, whose relation is not a URL (its scheme is
  missing), over a transport that initiates every push.
\<close>

definition colonDocument :: json where
  "colonDocument = JObject [(''author'', JString '':users'')]"

definition colonEnv :: env where
  "colonEnv = specEnv colonDocument (\<lambda>url. True)"

text \<open>
  The document \<^verbatim>\<open>{"publisher":"https://example.com/p","author":"/users/5"}\<close>, whose
  first relation is absolute, and a request that preloads both relations.
\<close>

definition mixedDocument :: json where
  "mixedDocument =
     JObject [(''publisher'', JString ''https://example.com/p''), (''author'', JString ''/users/5'')]"

definition mixedEnv :: env where
  "mixedEnv = specEnv mixedDocument (\<lambda>url. True)"

definition mixedRequest :: Request where
  "mixedRequest =
     \<lparr>Header = [''Preload'' \<mapsto> [quoted ''/publisher'', quoted ''/author'']], Query = Map.empty,
      URL = bookURL, Context = Pusher (Some freshPusher)\<rparr>"

text \<open>\<open>WithMaxPushes(0)\<close>, and a pusher that has pushed \<^verbatim>\<open>/users/5\<close> already.\<close>

definition noPushVulcain :: Vulcain where
  "noPushVulcain = defaultVulcain\<lparr>maxPushes := 0\<rparr>"

definition usedPusher :: waitPusher where
  "usedPusher = \<lparr>pusher_id = ''1'', pushed = [''/users/5'']\<rparr>"









section \<open>Facts about headers\<close>

lemma index_Header_Add:
  "index (Header_Add h k v) k' = (if k' = k then index h k @ [v] else index h k')"
  by (simp add: Header_Add_def index_def)

lemma index_Header_Set:
  "index (Header_Set h k v) k' = (if k' = k then [v] else index h k')"
  by (simp add: Header_Set_def index_def)

lemma addPreloadHeader_eq:
  "addPreloadHeader v h link nopush =
     Header_Add h ''Link''
       (''<'' @ apiUrl v @ link @ ''>; rel=preload; as=fetch'' @ (if nopush then ''; nopush'' else []))"
  by (simp add: addPreloadHeader_def Let_def)

section \<open>The protocol gate\<close>

lemma IsValidResponse_iff:
  "IsValidResponse req st h \<longleftrightarrow>
     200 \<le> st \<and> st \<le> 300 \<and>
     jsonRe_MatchString (Header_Get h ''Content-Type'') \<and>
     \<not> notransformRe_MatchString (Header_Get h ''Cache-Control'') \<and>
     (Header req ''Prefer'' = None \<or> list_ex preferRe_MatchString (index (Header req) ''Prefer''))"
  by (auto simp: IsValidResponse_def index_def split: option.splits)

text \<open>
  C2. The claim: \<open>IsValidResponse\<close> is true if and only if the status is a 2xx success, the
  content type denotes JSON, the cache control does not contain no-transform, and there
  is no Prefer header or one of its values names the json-pointer selector. The source
  rejects a status above 300, not above 299: for a request without a Prefer header and a
  response with the content type \<^verbatim>\<open>application/json\<close> and no cache control, the status
  300, which is not a success, is accepted.
\<close>

theorem IsValidResponse_accepts_status_300:
  "IsValidResponse preloadHeaderRequest 300 jsonHeaders"
  by code_simp

theorem IsValidResponse_accepts_status_300_witness:
  "\<not> (200 \<le> (300::int) \<and> (300::int) \<le> 299) \<and>
   Header preloadHeaderRequest ''Prefer'' = None \<and>
   Header_Get jsonHeaders ''Content-Type'' = ''application/json'' \<and>
   Header_Get jsonHeaders ''Cache-Control'' = [] \<and>
   IsValidResponse preloadHeaderRequest 300 jsonHeaders"
proof -
  have "Header preloadHeaderRequest ''Prefer'' = None \<and>
        Header_Get jsonHeaders ''Content-Type'' = ''application/json'' \<and>
        Header_Get jsonHeaders ''Cache-Control'' = []"
    by code_simp
  with IsValidResponse_accepts_status_300 show ?thesis by simp
qed

section \<open>The directives of a request\<close>

text \<open>
  C9. When the \<^verbatim>\<open>Fields\<close> header is present and does not parse as a structured list,
  \<open>extractFromRequest\<close> turns to the \<^verbatim>\<open>fields\<close> query parameter, and when that
  parses it is the directive, flagged as coming from the query; the same holds for
  \<^verbatim>\<open>Preload\<close> and \<^verbatim>\<open>preload\<close>.
\<close>

theorem extractFromRequest_query_fallback:
  "(index (Header req) ''Fields'' \<noteq> [] \<and> isl (UnmarshalList E (index (Header req) ''Fields'')) \<and>
    index (Query req) ''fields'' \<noteq> [] \<and> UnmarshalList E (index (Query req) ''fields'') = Inr l
      \<longrightarrow> d_fields (extractFromRequest E req) = l \<and> fieldsQuery (extractFromRequest E req)
          \<and> \<not> fieldsHeader (extractFromRequest E req)) \<and>
   (index (Header req) ''Preload'' \<noteq> [] \<and> isl (UnmarshalList E (index (Header req) ''Preload'')) \<and>
    index (Query req) ''preload'' \<noteq> [] \<and> UnmarshalList E (index (Query req) ''preload'') = Inr l'
      \<longrightarrow> d_preload (extractFromRequest E req) = l' \<and> preloadQuery (extractFromRequest E req)
          \<and> \<not> preloadHeader (extractFromRequest E req))"
  by (auto simp: extractFromRequest_def Let_def split: sum.splits prod.splits if_splits)

theorem extractFromRequest_query_fallback_witness:
  "(index (Header brokenHeaderRequest) ''Fields'' \<noteq> [] \<and>
    isl (UnmarshalList authorEnv (index (Header brokenHeaderRequest) ''Fields'')) \<and>
    index (Query brokenHeaderRequest) ''fields'' \<noteq> [] \<and>
    UnmarshalList authorEnv (index (Query brokenHeaderRequest) ''fields'') = Inr [''/title'']) \<and>
   (index (Header brokenHeaderRequest) ''Preload'' \<noteq> [] \<and>
    isl (UnmarshalList authorEnv (index (Header brokenHeaderRequest) ''Preload'')) \<and>
    index (Query brokenHeaderRequest) ''preload'' \<noteq> [] \<and>
    UnmarshalList authorEnv (index (Query brokenHeaderRequest) ''preload'') = Inr [''/author'']) \<and>
   d_fields (extractFromRequest authorEnv brokenHeaderRequest) = [''/title''] \<and>
   fieldsQuery (extractFromRequest authorEnv brokenHeaderRequest) \<and>
   \<not> fieldsHeader (extractFromRequest authorEnv brokenHeaderRequest) \<and>
   d_preload (extractFromRequest authorEnv brokenHeaderRequest) = [''/author''] \<and>
   preloadQuery (extractFromRequest authorEnv brokenHeaderRequest) \<and>
   \<not> preloadHeader (extractFromRequest authorEnv brokenHeaderRequest)"
proof -
  have f: "index (Header brokenHeaderRequest) ''Fields'' \<noteq> [] \<and>
    isl (UnmarshalList authorEnv (index (Header brokenHeaderRequest) ''Fields'')) \<and>
    index (Query brokenHeaderRequest) ''fields'' \<noteq> [] \<and>
    UnmarshalList authorEnv (index (Query brokenHeaderRequest) ''fields'') = Inr [''/title'']"
    by code_simp
  have p: "index (Header brokenHeaderRequest) ''Preload'' \<noteq> [] \<and>
    isl (UnmarshalList authorEnv (index (Header brokenHeaderRequest) ''Preload'')) \<and>
    index (Query brokenHeaderRequest) ''preload'' \<noteq> [] \<and>
    UnmarshalList authorEnv (index (Query brokenHeaderRequest) ''preload'') = Inr [''/author'']"
    by code_simp
  from extractFromRequest_query_fallback
         [of brokenHeaderRequest authorEnv "[''/title'']" "[''/author'']"] f p
  show ?thesis by blast
qed

text \<open>
  C6. The claim: whenever a request carries a directive both as a header and as a query
  parameter, the header form is used and the query form is ignored. It fails on a
  request whose \<^verbatim>\<open>Fields\<close> header does not parse as a structured list while its
  \<^verbatim>\<open>fields\<close> query parameter does: the query form is used.
\<close>

theorem extractFromRequest_broken_header_uses_query:
  "index (Header brokenHeaderRequest) ''Fields'' = [[CHR 0x22, CHR ''/'', CHR ''i'', CHR ''d'']] \<and>
   index (Query brokenHeaderRequest) ''fields'' = [quoted ''/title''] \<and>
   d_fields (extractFromRequest authorEnv brokenHeaderRequest) = [''/title''] \<and>
   fieldsQuery (extractFromRequest authorEnv brokenHeaderRequest) \<and>
   \<not> fieldsHeader (extractFromRequest authorEnv brokenHeaderRequest)"
  by code_simp

text \<open>
  C6, as amended. Whenever a request carries a directive both as a header and as a query
  parameter and the header form parses as a structured list, the header form is used
  and the query form is ignored. In every case the list of a directive is empty, or the
  list of its header form, or the list of its query form: the two forms are never
  merged.
\<close>

theorem extractFromRequest_header_first:
  "(index (Header req) ''Fields'' \<noteq> [] \<and> UnmarshalList E (index (Header req) ''Fields'') = Inr l
      \<longrightarrow> d_fields (extractFromRequest E req) = l \<and> fieldsHeader (extractFromRequest E req)
          \<and> \<not> fieldsQuery (extractFromRequest E req)) \<and>
   (index (Header req) ''Preload'' \<noteq> [] \<and> UnmarshalList E (index (Header req) ''Preload'') = Inr l'
      \<longrightarrow> d_preload (extractFromRequest E req) = l' \<and> preloadHeader (extractFromRequest E req)
          \<and> \<not> preloadQuery (extractFromRequest E req)) \<and>
   (d_fields (extractFromRequest E req) = [] \<or>
    UnmarshalList E (index (Header req) ''Fields'') = Inr (d_fields (extractFromRequest E req)) \<or>
    UnmarshalList E (index (Query req) ''fields'') = Inr (d_fields (extractFromRequest E req))) \<and>
   (d_preload (extractFromRequest E req) = [] \<or>
    UnmarshalList E (index (Header req) ''Preload'') = Inr (d_preload (extractFromRequest E req)) \<or>
    UnmarshalList E (index (Query req) ''preload'') = Inr (d_preload (extractFromRequest E req)))"
  by (auto simp: extractFromRequest_def Let_def split: sum.splits prod.splits if_splits)

theorem extractFromRequest_header_first_witness:
  "(index (Header bothFormsRequest) ''Fields'' \<noteq> [] \<and>
    UnmarshalList authorEnv (index (Header bothFormsRequest) ''Fields'') = Inr [''/id'']) \<and>
   (index (Header bothFormsRequest) ''Preload'' \<noteq> [] \<and>
    UnmarshalList authorEnv (index (Header bothFormsRequest) ''Preload'') = Inr [''/title'']) \<and>
   index (Query bothFormsRequest) ''fields'' = [quoted ''/title''] \<and>
   index (Query bothFormsRequest) ''preload'' = [quoted ''/author''] \<and>
   d_fields (extractFromRequest authorEnv bothFormsRequest) = [''/id''] \<and>
   fieldsHeader (extractFromRequest authorEnv bothFormsRequest) \<and>
   \<not> fieldsQuery (extractFromRequest authorEnv bothFormsRequest) \<and>
   d_preload (extractFromRequest authorEnv bothFormsRequest) = [''/title''] \<and>
   preloadHeader (extractFromRequest authorEnv bothFormsRequest) \<and>
   \<not> preloadQuery (extractFromRequest authorEnv bothFormsRequest)"
proof -
  have f: "index (Header bothFormsRequest) ''Fields'' \<noteq> [] \<and>
    UnmarshalList authorEnv (index (Header bothFormsRequest) ''Fields'') = Inr [''/id'']"
    by code_simp
  have p: "index (Header bothFormsRequest) ''Preload'' \<noteq> [] \<and>
    UnmarshalList authorEnv (index (Header bothFormsRequest) ''Preload'') = Inr [''/title'']"
    by code_simp
  have q: "index (Query bothFormsRequest) ''fields'' = [quoted ''/title''] \<and>
    index (Query bothFormsRequest) ''preload'' = [quoted ''/author'']"
    by code_simp
  from extractFromRequest_header_first
         [of bothFormsRequest authorEnv "[''/id'']" "[''/title'']"] f p q
  show ?thesis by blast
qed

section \<open>Pushing a relation\<close>

text \<open>
  C3. For every relation handed to \<open>push\<close> that is not pushed (the call returns false),
  exactly one header \<^verbatim>\<open>Link: <url>; rel=preload; as=fetch\<close> is added, the URL prefixed
  with the configured base URL, and the suffix \<^verbatim>\<open>; nopush\<close> is there if and only if
  the push budget is zero or the URL is absolute; it is absent when the pusher is nil
  or the push attempt itself failed. A relation that counts as pushed adds no header.
\<close>

theorem push_fallback_link:
  assumes "push E v u req newHeaders n preloadH fieldsH = Returns (ok, h, c)"
  shows "(ok \<longrightarrow> h = newHeaders) \<and>
         (\<not> ok \<longrightarrow>
            h = Header_Add newHeaders ''Link''
                  (''<'' @ apiUrl v @ URL_String u @ ''>; rel=preload; as=fetch'' @
                   (if maxPushes v = 0 \<or> IsAbs u then ''; nopush'' else [])) \<and>
            index h ''Link'' = index newHeaders ''Link'' @
                  [''<'' @ apiUrl v @ URL_String u @ ''>; rel=preload; as=fetch'' @
                   (if maxPushes v = 0 \<or> IsAbs u then ''; nopush'' else [])])"
  using assms
  by (auto simp: push_def Let_def addPreloadHeader_eq index_Header_Add
           split: if_splits ctxValue.splits option.splits prod.splits)

text \<open>
  The witness: with a budget of zero the relation \<^verbatim>\<open>/users/5\<close> gets the link with
  \<^verbatim>\<open>; nopush\<close>; with a nil pusher, and with a transport that refuses the push, it gets
  the link without it.
\<close>

theorem push_fallback_link_witness:
  "push authorEnv noPushVulcain user5 preloadHeaderRequest jsonHeaders authorNode True False =
     Returns (False, Header_Add jsonHeaders ''Link'' ''</users/5>; rel=preload; as=fetch; nopush'',
              Pusher (Some freshPusher)) \<and>
   push authorEnv defaultVulcain user5 (preloadHeaderRequest\<lparr>Context := Pusher None\<rparr>) jsonHeaders
        authorNode True False =
     Returns (False, Header_Add jsonHeaders ''Link'' ''</users/5>; rel=preload; as=fetch'',
              Pusher None) \<and>
   push refusingEnv defaultVulcain user5 preloadHeaderRequest jsonHeaders authorNode True False =
     Returns (False, Header_Add jsonHeaders ''Link'' ''</users/5>; rel=preload; as=fetch'',
              Pusher (Some usedPusher)) \<and>
   index (Header_Add jsonHeaders ''Link'' ''</users/5>; rel=preload; as=fetch; nopush'') ''Link'' =
     index jsonHeaders ''Link'' @ [''</users/5>; rel=preload; as=fetch; nopush''] \<and>
   index (Header_Add jsonHeaders ''Link'' ''</users/5>; rel=preload; as=fetch'') ''Link'' =
     index jsonHeaders ''Link'' @ [''</users/5>; rel=preload; as=fetch'']"
proof -
  have a: "push authorEnv noPushVulcain user5 preloadHeaderRequest jsonHeaders authorNode True False =
     Returns (False, Header_Add jsonHeaders ''Link'' ''</users/5>; rel=preload; as=fetch; nopush'',
              Pusher (Some freshPusher))"
    by (simp add: push_def noPushVulcain_def defaultVulcain_def user5_def IsAbs_def URL_String_def
          addPreloadHeader_def preloadHeaderRequest_def)
  have b: "push authorEnv defaultVulcain user5 (preloadHeaderRequest\<lparr>Context := Pusher None\<rparr>)
        jsonHeaders authorNode True False =
     Returns (False, Header_Add jsonHeaders ''Link'' ''</users/5>; rel=preload; as=fetch'',
              Pusher None)"
    by (simp add: push_def defaultVulcain_def user5_def IsAbs_def URL_String_def
          addPreloadHeader_def preloadHeaderRequest_def)
  have c: "push refusingEnv defaultVulcain user5 preloadHeaderRequest jsonHeaders authorNode True False =
     Returns (False, Header_Add jsonHeaders ''Link'' ''</users/5>; rel=preload; as=fetch'',
              Pusher (Some usedPusher))"
    by (simp add: push_def defaultVulcain_def user5_def IsAbs_def URL_String_def
          addPreloadHeader_def preloadHeaderRequest_def refusingEnv_def specEnv_def
          ledger_Push_def freshPusher_def usedPusher_def)
  from push_fallback_link [OF a] push_fallback_link [OF c] a b c show ?thesis
    by (simp add: noPushVulcain_def defaultVulcain_def user5_def IsAbs_def URL_String_def)
qed

text \<open>
  C4. When the push attempt of a relation fails with the already-pushed error, \<open>push\<close>
  returns true and the response headers are the ones it was given: no \<^verbatim>\<open>Link\<close> header
  and no other header is added.
\<close>

theorem push_already_pushed:
  assumes "maxPushes v \<noteq> 0" and "\<not> IsAbs u" and "Context req = Pusher (Some pusher)"
    and "Push E pusher (URL_String u) (pushOptions E req pusher n preloadH fieldsH) =
           (Some errRelationAlreadyPushed, pusher')"
  shows "push E v u req newHeaders n preloadH fieldsH =
           Returns (True, newHeaders, Pusher (Some pusher'))"
  using assms by (simp add: push_def Let_def)

theorem push_already_pushed_witness:
  "maxPushes defaultVulcain \<noteq> 0 \<and> \<not> IsAbs user5 \<and>
   Context (preloadHeaderRequest\<lparr>Context := Pusher (Some usedPusher)\<rparr>) = Pusher (Some usedPusher) \<and>
   Push authorEnv usedPusher (URL_String user5)
     (pushOptions authorEnv (preloadHeaderRequest\<lparr>Context := Pusher (Some usedPusher)\<rparr>)
        usedPusher authorNode True False) = (Some errRelationAlreadyPushed, usedPusher) \<and>
   push authorEnv defaultVulcain user5 (preloadHeaderRequest\<lparr>Context := Pusher (Some usedPusher)\<rparr>)
     jsonHeaders authorNode True False = Returns (True, jsonHeaders, Pusher (Some usedPusher))"
proof -
  have a: "maxPushes defaultVulcain \<noteq> 0" by code_simp
  have b: "\<not> IsAbs user5" by code_simp
  have c: "Context (preloadHeaderRequest\<lparr>Context := Pusher (Some usedPusher)\<rparr>) = Pusher (Some usedPusher)"
    by simp
  have d: "Push authorEnv usedPusher (URL_String user5)
     (pushOptions authorEnv (preloadHeaderRequest\<lparr>Context := Pusher (Some usedPusher)\<rparr>)
        usedPusher authorNode True False) = (Some errRelationAlreadyPushed, usedPusher)"
    by (simp add: authorEnv_def specEnv_def ledger_Push_def usedPusher_def URL_String_def user5_def)
  from push_already_pushed [OF a b c d] a b c d show ?thesis by simp
qed

text \<open>
  C10. The type assertion of \<open>push\<close> on the value of the request context is unchecked:
  for a relative relation and a push budget that is not zero, \<open>push\<close> panics when the
  context holds no value under the key, which is the case of a context that
  CreateRequestContext did not produce. The nil check that follows covers a nil pusher
  stored under the key: then \<open>push\<close> falls back to the link.
\<close>

theorem push_panics_without_context_value:
  assumes "maxPushes v \<noteq> 0" and "\<not> IsAbs u"
  shows "(Context req = NoValue \<longrightarrow> push E v u req newHeaders n preloadH fieldsH = Panics) \<and>
         (Context req = Pusher None \<longrightarrow>
            push E v u req newHeaders n preloadH fieldsH =
              Returns (False, addPreloadHeader v newHeaders (URL_String u) False, Pusher None))"
  using assms by (simp add: push_def Let_def)

text \<open>
  The witness: the call on \<^verbatim>\<open>/users/5\<close> with an empty context panics, and so does
  \<open>Apply\<close> on the request with the preload header.
\<close>

theorem push_panics_without_context_value_witness:
  "maxPushes defaultVulcain \<noteq> 0 \<and> \<not> IsAbs user5 \<and>
   Context (preloadHeaderRequest\<lparr>Context := NoValue\<rparr>) = NoValue \<and>
   push authorEnv defaultVulcain user5 (preloadHeaderRequest\<lparr>Context := NoValue\<rparr>) jsonHeaders
     authorNode True False = Panics \<and>
   \<not> returned (Apply authorEnv defaultVulcain (preloadHeaderRequest\<lparr>Context := NoValue\<rparr>)
        directWriter (Inr (encode authorDocument)) jsonHeaders)"
proof -
  have a: "maxPushes defaultVulcain \<noteq> 0" by code_simp
  have b: "\<not> IsAbs user5" by code_simp
  have c: "Context (preloadHeaderRequest\<lparr>Context := NoValue\<rparr>) = NoValue" by simp
  have d: "\<not> returned (Apply authorEnv defaultVulcain (preloadHeaderRequest\<lparr>Context := NoValue\<rparr>)
        directWriter (Inr (encode authorDocument)) jsonHeaders)"
    by code_simp
  from push_panics_without_context_value [OF a b, of "preloadHeaderRequest\<lparr>Context := NoValue\<rparr>"
      authorEnv jsonHeaders authorNode True False] a b c d
  show ?thesis by simp
qed

section \<open>The relation handler\<close>

lemma handler_usePreloadLinks:
  assumes "relationHandler E v req d n val st = Returns (a, st')"
  shows "usePreloadLinks st' =
           (case pushReturn E v req d n val st of None \<Rightarrow> usePreloadLinks st | Some ok \<Rightarrow> \<not> ok)"
  using assms
  by (auto simp: relationHandler_def pushReturn_def Let_def
           split: exec.splits sum.splits prod.splits if_splits)

text \<open>
  After a run of the handler \<open>usePreloadLinks\<close> tells what the last call of \<open>push\<close>
  returned; it keeps its value when \<open>push\<close> was never called.
\<close>

lemma handleAll_usePreloadLinks:
  "handleAll (relationHandler E v req d) ls st = Returns (as, st') \<Longrightarrow>
   usePreloadLinks st' =
     (if pushReturns E v req d ls st = [] then usePreloadLinks st
      else \<not> last (pushReturns E v req d ls st))"
proof (induction ls arbitrary: st as st')
  case Nil
  then show ?case by simp
next
  case (Cons x ls)
  obtain n val where x: "x = (n, val)" by (cases x)
  from Cons.prems x obtain a st1 bs where
    h: "relationHandler E v req d n val st = Returns (a, st1)" and
    r: "handleAll (relationHandler E v req d) ls st1 = Returns (bs, st')"
    by (auto split: exec.splits prod.splits)
  note ih = Cons.IH [OF r]
  note h1 = handler_usePreloadLinks [OF h]
  show ?case
    using ih h1 h x by (auto split: option.splits)
qed

lemma push_Returns:
  assumes "Context req \<noteq> NoValue"
  shows "\<exists>ok h c. push E v u req newHeaders n preloadH fieldsH = Returns (ok, h, c) \<and> c \<noteq> NoValue"
  using assms
  by (auto simp: push_def Let_def split: ctxValue.splits option.splits prod.splits)

lemma parseRelation_Returns:
  assumes "openAPI v = None \<longrightarrow> r = None"
  shows "\<exists>x. parseRelation E v selector rel r = Returns x"
  using assms
  by (auto simp: parseRelation_def Let_def split: option.splits sum.splits)

lemma getOpenAPIRoute_None:
  assumes "openAPI v = None \<longrightarrow> r = None"
  shows "openAPI v = None \<longrightarrow> getOpenAPIRoute v u r t = None"
  using assms by (auto simp: getOpenAPIRoute_def)

text \<open>
  With a value in the context the handler returns, and it keeps two facts: the context
  holds a value, and a route is known only when there is a route description.
\<close>

lemma relationHandler_Returns:
  assumes "ctx st \<noteq> NoValue" and "openAPI v = None \<longrightarrow> oaRoute st = None"
  shows "\<exists>a st'. relationHandler E v req d n val st = Returns (a, st') \<and>
                 ctx st' \<noteq> NoValue \<and> (openAPI v = None \<longrightarrow> oaRoute st' = None)"
proof -
  let ?r = "getOpenAPIRoute v (URL req) (oaRoute st) (oaRouteTested st)"
  have r: "openAPI v = None \<longrightarrow> ?r = None"
    using assms(2) by (rule getOpenAPIRoute_None)
  from parseRelation_Returns [OF r] obtain x where
    x: "parseRelation E v (node_String n) val ?r = Returns x" by blast
  show ?thesis
  proof (cases x)
    case (Inl e)
    with x r assms(1) show ?thesis
      by (simp add: relationHandler_def Let_def)
  next
    case (Inr p)
    obtain u useOA where p: "p = (u, useOA)" by (cases p)
    let ?u = "if (preloadQuery d \<or> fieldsQuery d) \<and> \<not> useOA then urlRewriter E u n else u"
    have c: "Context (req\<lparr>Context := ctx st\<rparr>) \<noteq> NoValue"
      using assms(1) by simp
    from push_Returns [OF c] obtain ok h c' where
      "push E v ?u (req\<lparr>Context := ctx st\<rparr>) (headers st) n (preloadHeader d) (fieldsHeader d)
         = Returns (ok, h, c')" and "c' \<noteq> NoValue"
      by blast
    with x Inr p r assms(1) show ?thesis
      by (auto simp: relationHandler_def Let_def)
  qed
qed

lemma handleAll_Returns:
  "ctx st \<noteq> NoValue \<Longrightarrow> (openAPI v = None \<longrightarrow> oaRoute st = None) \<Longrightarrow>
   \<exists>as st'. handleAll (relationHandler E v req d) ls st = Returns (as, st')"
proof (induction ls arbitrary: st)
  case Nil
  then show ?case by simp
next
  case (Cons x ls)
  obtain n val where x: "x = (n, val)" by (cases x)
  from relationHandler_Returns [OF Cons.prems, of E req d n val] obtain a st1 where
    h: "relationHandler E v req d n val st = Returns (a, st1)" and
    i: "ctx st1 \<noteq> NoValue" "openAPI v = None \<longrightarrow> oaRoute st1 = None"
    by (elim exE conjE)
  from Cons.IH [OF i] obtain bs st2 where
    "handleAll (relationHandler E v req d) ls st1 = Returns (bs, st2)" by blast
  with h x show ?case by simp
qed



section \<open>Apply\<close>

lemma snd_earlyHints: "snd (earlyHints rw hs) = hs"
  by (auto simp: earlyHints_def Let_def Header_Del_def index_def fun_upd_idem)

lemma Apply_read_error:
  "Apply E v req rw (Inl e) hs =
     Returns \<lparr>a_body = None, a_error = Some e, a_headers = hs, a_writer = rw, a_context = Context req\<rparr>"
  by (simp add: Apply_def Let_def)

lemma Apply_Panics:
  assumes "handleAll (relationHandler E v req (extractFromRequest E req)) (Apply_leaves E req body)
      (Apply_locals req hs) = Panics"
  shows "Apply E v req rw (Inr body) hs = Panics"
proof -
  obtain ls asm where t: "traverse E body
         (importPointers E (importPointers E (Node False False [] []) preload_t
             (d_preload (extractFromRequest E req))) fields_t (d_fields (extractFromRequest E req)))
         (length (d_fields (extractFromRequest E req)) > 0) = (ls, asm)"
    by (meson surj_pair)
  from assms t have "handleAll (relationHandler E v req (extractFromRequest E req)) ls
      (Apply_locals req hs) = Panics"
    by (simp add: Apply_leaves_def Let_def)
  with t show ?thesis
    by (simp add: Apply_def Apply_locals_def traverseJSON_def Let_def)
qed

text \<open>
  When the run of the handler returns, \<open>Apply\<close> returns a body and no error, with
  \<^verbatim>\<open>Vary: Preload\<close> added exactly when \<open>usePreloadLinks\<close> is set and \<^verbatim>\<open>Vary: Fields\<close>
  exactly when the fields directive came from the header.
\<close>

lemma Apply_Returns:
  assumes "handleAll (relationHandler E v req (extractFromRequest E req)) (Apply_leaves E req body)
      (Apply_locals req hs) = Returns (as, st)"
  shows "\<exists>r. Apply E v req rw (Inr body) hs = Returns r \<and> a_error r = None \<and> a_body r \<noteq> None \<and>
             a_context r = ctx st \<and>
             index (a_headers r) ''Vary'' =
               index (headers st) ''Vary'' @ (if usePreloadLinks st then [''Preload''] else [])
                 @ (if fieldsHeader (extractFromRequest E req) then [''Fields''] else []) \<and>
             index (a_headers r) ''Link'' = index (headers st) ''Link''"
proof -
  obtain ls asm where t: "traverse E body
         (importPointers E (importPointers E (Node False False [] []) preload_t
             (d_preload (extractFromRequest E req))) fields_t (d_fields (extractFromRequest E req)))
         (length (d_fields (extractFromRequest E req)) > 0) = (ls, asm)"
    by (meson surj_pair)
  from assms t have h: "handleAll (relationHandler E v req (extractFromRequest E req)) ls
      (Apply_locals req hs) = Returns (as, st)"
    by (simp add: Apply_leaves_def Let_def)
  obtain rw' hs' where eh: "earlyHints rw (headers st) = (rw', hs')" by (meson surj_pair)
  with snd_earlyHints [of rw "headers st"] have hs': "hs' = headers st" by simp
  show ?thesis
    using h t eh hs'
    by (simp add: Apply_def Apply_locals_def traverseJSON_def Let_def
          index_Header_Add index_Header_Set)
qed

lemma Apply_cases:
  "(\<exists>as st. handleAll (relationHandler E v req (extractFromRequest E req)) (Apply_leaves E req body)
      (Apply_locals req hs) = Returns (as, st)) \<or> Apply E v req rw (Inr body) hs = Panics"
  using Apply_Panics [of E v req body hs rw]
  by (cases "handleAll (relationHandler E v req (extractFromRequest E req)) (Apply_leaves E req body)
      (Apply_locals req hs)") auto

lemma Apply_total:
  assumes "Context req \<noteq> NoValue"
  shows "\<exists>r. Apply E v req rw (Inr body) hs = Returns r \<and> a_error r = None \<and> a_body r \<noteq> None"
proof -
  have "\<exists>as st. handleAll (relationHandler E v req (extractFromRequest E req))
          (Apply_leaves E req body) (Apply_locals req hs) = Returns (as, st)"
    by (rule handleAll_Returns) (use assms in \<open>simp_all add: Apply_locals_def\<close>)
  then obtain as st where "handleAll (relationHandler E v req (extractFromRequest E req))
          (Apply_leaves E req body) (Apply_locals req hs) = Returns (as, st)" by blast
  from Apply_Returns [OF this, of rw] show ?thesis by blast
qed

lemma Apply_Inr_no_error:
  "Apply E v req rw (Inr body) hs = Returns r \<Longrightarrow> a_error r = None \<and> a_body r \<noteq> None"
  using Apply_cases [of E v req body hs rw] Apply_Returns [of E v req body hs _ _ rw]
  by auto

text \<open>
  C1. The claim: whenever \<open>Apply\<close> has handled at least one preload-selected relation,
  pushed or emitted as a preload link, the response headers contain \<^verbatim>\<open>Vary: Preload\<close>.
  It fails when the relation is pushed: for the document \<^verbatim>\<open>{"author":"/users/5"}\<close>,
  the header \<^verbatim>\<open>Preload: "/author"\<close>, a pusher and no limit on pushes, \<open>push\<close> is called
  once and returns true, and \<open>Apply\<close> returns headers with no \<^verbatim>\<open>Vary\<close> and no \<^verbatim>\<open>Link\<close>.
\<close>

theorem Apply_pushed_without_Vary_Preload:
  "Apply_pushes authorEnv defaultVulcain preloadHeaderRequest (encode authorDocument) jsonHeaders = [True] \<and>
   returned (Apply authorEnv defaultVulcain preloadHeaderRequest directWriter
               (Inr (encode authorDocument)) jsonHeaders) \<and>
   returnedHeader (Apply authorEnv defaultVulcain preloadHeaderRequest directWriter
               (Inr (encode authorDocument)) jsonHeaders) ''Vary'' = [] \<and>
   returnedHeader (Apply authorEnv defaultVulcain preloadHeaderRequest directWriter
               (Inr (encode authorDocument)) jsonHeaders) ''Link'' = []"
  by code_simp

text \<open>
  C1, as amended. Whenever \<open>Apply\<close> returns after it has handled at least one
  preload-selected relation and none of them was pushed (every call of \<open>push\<close> returned
  false, the relation emitted as a preload link), the response headers contain
  \<^verbatim>\<open>Vary: Preload\<close>.
\<close>

theorem Apply_fallback_Vary_Preload:
  assumes "returned (Apply E v req rw (Inr body) hs)"
    and "Apply_pushes E v req body hs \<noteq> []"
    and "True \<notin> set (Apply_pushes E v req body hs)"
  shows "''Preload'' \<in> set (returnedHeader (Apply E v req rw (Inr body) hs) ''Vary'')"
proof -
  from assms(1) Apply_cases [of E v req body hs rw] obtain as st where
    h: "handleAll (relationHandler E v req (extractFromRequest E req)) (Apply_leaves E req body)
      (Apply_locals req hs) = Returns (as, st)"
    by (auto simp: returned_def)
  from assms(2) have "last (Apply_pushes E v req body hs) \<in> set (Apply_pushes E v req body hs)"
    by (rule last_in_set)
  with assms(3) have "\<not> last (Apply_pushes E v req body hs)"
    by (cases "last (Apply_pushes E v req body hs)") auto
  with handleAll_usePreloadLinks [OF h] assms(2) have "usePreloadLinks st"
    by (simp add: Apply_pushes_def)
  with Apply_Returns [OF h, of rw] show ?thesis
    by (auto simp: returnedHeader_def)
qed

text \<open>
  The witness: the same request with a push budget of zero. \<open>push\<close> is called once and
  returns false, and the response carries the link and \<^verbatim>\<open>Vary: Preload\<close>.
\<close>

theorem Apply_fallback_Vary_Preload_witness:
  "returned (Apply authorEnv noPushVulcain preloadHeaderRequest directWriter
               (Inr (encode authorDocument)) jsonHeaders) \<and>
   Apply_pushes authorEnv noPushVulcain preloadHeaderRequest (encode authorDocument) jsonHeaders = [False] \<and>
   returnedHeader (Apply authorEnv noPushVulcain preloadHeaderRequest directWriter
               (Inr (encode authorDocument)) jsonHeaders) ''Link'' =
     [''</users/5>; rel=preload; as=fetch; nopush''] \<and>
   ''Preload'' \<in> set (returnedHeader (Apply authorEnv noPushVulcain preloadHeaderRequest directWriter
               (Inr (encode authorDocument)) jsonHeaders) ''Vary'')"
proof -
  have a: "returned (Apply authorEnv noPushVulcain preloadHeaderRequest directWriter
               (Inr (encode authorDocument)) jsonHeaders)"
    by code_simp
  have b: "Apply_pushes authorEnv noPushVulcain preloadHeaderRequest (encode authorDocument) jsonHeaders
             = [False]"
    by code_simp
  have c: "returnedHeader (Apply authorEnv noPushVulcain preloadHeaderRequest directWriter
               (Inr (encode authorDocument)) jsonHeaders) ''Link'' =
     [''</users/5>; rel=preload; as=fetch; nopush'']"
    by code_simp
  from b have b1: "Apply_pushes authorEnv noPushVulcain preloadHeaderRequest (encode authorDocument)
      jsonHeaders \<noteq> []" and b2: "True \<notin> set (Apply_pushes authorEnv noPushVulcain preloadHeaderRequest
      (encode authorDocument) jsonHeaders)"
    by simp_all
  from Apply_fallback_Vary_Preload [OF a b1 b2] a b c show ?thesis by simp
qed

text \<open>
  The flag \<open>usePreloadLinks\<close> is overwritten at each relation: when a link was emitted
  for one relation and a later one is pushed, the response has the \<^verbatim>\<open>Link\<close> header and
  no \<^verbatim>\<open>Vary: Preload\<close>.
\<close>

lemma Apply_link_then_push:
  "Apply_pushes mixedEnv defaultVulcain mixedRequest (encode mixedDocument) jsonHeaders = [False, True] \<and>
   returnedHeader (Apply mixedEnv defaultVulcain mixedRequest directWriter
     (Inr (encode mixedDocument)) jsonHeaders) ''Link'' =
     [''<https://example.com/p>; rel=preload; as=fetch; nopush''] \<and>
   returnedHeader (Apply mixedEnv defaultVulcain mixedRequest directWriter
     (Inr (encode mixedDocument)) jsonHeaders) ''Vary'' = []"
  by code_simp

text \<open>
  C8. \<open>Apply\<close> returns an error if and only if reading the response body fails, and
  then it returns that error and no body. Whatever the parser of relations, the route
  description and the pusher do during the traversal, a body that was read gives no
  error; on a request whose context CreateRequestContext has filled, \<open>Apply\<close> returns
  a body.
\<close>

theorem Apply_error_iff_read_fails:
  "(returnedError (Apply E v req rw responseBody hs) \<noteq> None \<longleftrightarrow> isl responseBody) \<and>
   returnedError (Apply E v req rw (Inl e) hs) = Some e \<and>
   returnedBody (Apply E v req rw (Inl e) hs) = None \<and>
   returnedError (Apply E v req rw (Inr body) hs) = None \<and>
   (Context req \<noteq> NoValue \<longrightarrow>
      returned (Apply E v req rw (Inr body) hs) \<and>
      returnedBody (Apply E v req rw (Inr body) hs) \<noteq> None)"
proof -
  have inr: "returnedError (Apply E v req rw (Inr b) hs) = None" for b
    using Apply_Inr_no_error [of E v req rw b hs]
    by (cases "Apply E v req rw (Inr b) hs") (auto simp: returnedError_def)
  have inl: "returnedError (Apply E v req rw (Inl x) hs) = Some x \<and>
             returnedBody (Apply E v req rw (Inl x) hs) = None" for x
    by (simp add: Apply_read_error returnedError_def returnedBody_def)
  have "returnedError (Apply E v req rw responseBody hs) \<noteq> None \<longleftrightarrow> isl responseBody"
    using inr inl by (cases responseBody) auto
  moreover have "Context req \<noteq> NoValue \<longrightarrow>
      returned (Apply E v req rw (Inr body) hs) \<and>
      returnedBody (Apply E v req rw (Inr body) hs) \<noteq> None"
    using Apply_total [of req E v rw body hs]
    by (auto simp: returned_def returnedBody_def)
  ultimately show ?thesis using inr inl by blast
qed

text \<open>
  The witness: a reader that fails with \<^verbatim>\<open>unexpected EOF\<close> gives that error; a relation
  that is not a URL, and a push that the transport refuses, give a body and no error.
\<close>

theorem Apply_error_iff_read_fails_witness:
  "isl (Inl (Error ''unexpected EOF'') :: error + string) \<and>
   returnedError (Apply authorEnv defaultVulcain preloadHeaderRequest directWriter
     (Inl (Error ''unexpected EOF'')) jsonHeaders) = Some (Error ''unexpected EOF'') \<and>
   returnedBody (Apply authorEnv defaultVulcain preloadHeaderRequest directWriter
     (Inl (Error ''unexpected EOF'')) jsonHeaders) = None \<and>
   Context preloadHeaderRequest \<noteq> NoValue \<and>
   isl (Parse colonEnv '':users'') \<and>
   returned (Apply colonEnv defaultVulcain preloadHeaderRequest directWriter
     (Inr (encode colonDocument)) jsonHeaders) \<and>
   returnedError (Apply colonEnv defaultVulcain preloadHeaderRequest directWriter
     (Inr (encode colonDocument)) jsonHeaders) = None \<and>
   returnedBody (Apply colonEnv defaultVulcain preloadHeaderRequest directWriter
     (Inr (encode colonDocument)) jsonHeaders) = Some (encode colonDocument) \<and>
   Apply_pushes refusingEnv defaultVulcain preloadHeaderRequest (encode authorDocument) jsonHeaders
     = [False] \<and>
   returned (Apply refusingEnv defaultVulcain preloadHeaderRequest directWriter
     (Inr (encode authorDocument)) jsonHeaders) \<and>
   returnedError (Apply refusingEnv defaultVulcain preloadHeaderRequest directWriter
     (Inr (encode authorDocument)) jsonHeaders) = None"
proof -
  have c: "Context preloadHeaderRequest \<noteq> NoValue"
    by (simp add: preloadHeaderRequest_def)
  have p: "isl (Parse colonEnv '':users'') \<and>
    returnedBody (Apply colonEnv defaultVulcain preloadHeaderRequest directWriter
     (Inr (encode colonDocument)) jsonHeaders) = Some (encode colonDocument) \<and>
    Apply_pushes refusingEnv defaultVulcain preloadHeaderRequest (encode authorDocument) jsonHeaders
     = [False]"
    by code_simp
  from Apply_error_iff_read_fails [of authorEnv defaultVulcain preloadHeaderRequest directWriter
         "Inl (Error ''unexpected EOF'')" jsonHeaders "Error ''unexpected EOF''" "encode authorDocument"]
       Apply_error_iff_read_fails [of colonEnv defaultVulcain preloadHeaderRequest directWriter
         "Inr (encode colonDocument)" jsonHeaders "Error ''unexpected EOF''" "encode colonDocument"]
       Apply_error_iff_read_fails [of refusingEnv defaultVulcain preloadHeaderRequest directWriter
         "Inr (encode authorDocument)" jsonHeaders "Error ''unexpected EOF''" "encode authorDocument"]
       c p
  show ?thesis by simp
qed

text \<open>
  Removing the \<^verbatim>\<open>Fields\<close> or the \<^verbatim>\<open>Preload\<close> header of a request changes nothing in
  the headers of a pushed request, which drop both, and so nothing in \<open>push\<close> and in the
  handler.
\<close>

lemma pushOptions_Header_Del:
  assumes "k = ''Fields'' \<or> k = ''Preload''" and "Header r1 = Header_Del (Header r2) k"
  shows "pushOptions E r1 pusher n preloadH fieldsH = pushOptions E r2 pusher n preloadH fieldsH"
proof -
  have eq: "Header_Del (Header_Del (Header_Del
          (Header_Set (Header_Del (Header r2) k) (internalRequestHeader E) (pusher_id pusher))
          ''Preload'') ''Fields'') ''Te'' =
        Header_Del (Header_Del (Header_Del
          (Header_Set (Header r2) (internalRequestHeader E) (pusher_id pusher))
          ''Preload'') ''Fields'') ''Te''"
    using assms(1) by (auto simp: Header_Del_def Header_Set_def fun_eq_iff)
  show ?thesis
    unfolding pushOptions_def Let_def assms(2) eq by (rule refl)
qed

lemma push_Header_Del:
  assumes "k = ''Fields'' \<or> k = ''Preload''" and "Header r1 = Header_Del (Header r2) k"
    and "Context r1 = Context r2"
  shows "push E v u r1 newHeaders n preloadH fieldsH = push E v u r2 newHeaders n preloadH fieldsH"
  using assms(3) pushOptions_Header_Del [OF assms(1,2), of E]
  by (simp add: push_def Let_def split: ctxValue.split option.split)

lemma relationHandler_Header_Del:
  assumes "k = ''Fields'' \<or> k = ''Preload''"
  shows "relationHandler E v (req\<lparr>Header := Header_Del (Header req) k\<rparr>) d =
         relationHandler E v req d"
proof (intro ext)
  fix n val and st :: locals
  have p: "push E v u (req\<lparr>Header := Header_Del (Header req) k, Context := ctx st\<rparr>) h n a b =
        push E v u (req\<lparr>Context := ctx st\<rparr>) h n a b" for u h a b
    by (rule push_Header_Del [OF assms]) simp_all
  show "relationHandler E v (req\<lparr>Header := Header_Del (Header req) k\<rparr>) d n val st =
        relationHandler E v req d n val st"
    by (simp add: relationHandler_def Let_def p split: exec.split sum.split prod.split)
qed

lemma Apply_Header_Del:
  assumes "k = ''Fields'' \<or> k = ''Preload''"
    and "extractFromRequest E (req\<lparr>Header := Header_Del (Header req) k\<rparr>) = extractFromRequest E req"
  shows "Apply E v (req\<lparr>Header := Header_Del (Header req) k\<rparr>) rw responseBody hs =
         Apply E v req rw responseBody hs"
proof (cases responseBody)
  case (Inl e)
  then show ?thesis by (simp add: Apply_read_error)
next
  case (Inr body)
  then show ?thesis
    by (simp add: Apply_def Let_def assms(2) relationHandler_Header_Del [OF assms(1)])
qed

text \<open>
  C7. A form of a directive that does not parse as a structured list is treated as
  absent: \<open>extractFromRequest\<close> yields what it yields for the request without that
  header or query parameter, and \<open>Apply\<close> does on a request with a malformed header
  what it does on the request without the header. So a directive none of whose forms
  parses has the empty list and neither flag: \<open>Apply\<close> imports no pointer from it and,
  for \<^verbatim>\<open>Fields\<close>, does not filter. No error is surfaced: on a request whose context
  CreateRequestContext has filled, \<open>Apply\<close> returns a body and no error.
\<close>

theorem malformed_directive_is_absent:
  "(isl (UnmarshalList E (index (Header req) ''Fields'')) \<longrightarrow>
      extractFromRequest E (req\<lparr>Header := Header_Del (Header req) ''Fields''\<rparr>) = extractFromRequest E req \<and>
      Apply E v (req\<lparr>Header := Header_Del (Header req) ''Fields''\<rparr>) rw responseBody hs =
        Apply E v req rw responseBody hs) \<and>
   (isl (UnmarshalList E (index (Header req) ''Preload'')) \<longrightarrow>
      extractFromRequest E (req\<lparr>Header := Header_Del (Header req) ''Preload''\<rparr>) = extractFromRequest E req \<and>
      Apply E v (req\<lparr>Header := Header_Del (Header req) ''Preload''\<rparr>) rw responseBody hs =
        Apply E v req rw responseBody hs) \<and>
   (isl (UnmarshalList E (index (Query req) ''fields'')) \<longrightarrow>
      extractFromRequest E (req\<lparr>Query := Header_Del (Query req) ''fields''\<rparr>) = extractFromRequest E req) \<and>
   (isl (UnmarshalList E (index (Query req) ''preload'')) \<longrightarrow>
      extractFromRequest E (req\<lparr>Query := Header_Del (Query req) ''preload''\<rparr>) = extractFromRequest E req) \<and>
   ((index (Header req) ''Fields'' = [] \<or> isl (UnmarshalList E (index (Header req) ''Fields''))) \<and>
    (index (Query req) ''fields'' = [] \<or> isl (UnmarshalList E (index (Query req) ''fields'')))
      \<longrightarrow> d_fields (extractFromRequest E req) = [] \<and> \<not> fieldsHeader (extractFromRequest E req)
          \<and> \<not> fieldsQuery (extractFromRequest E req)) \<and>
   ((index (Header req) ''Preload'' = [] \<or> isl (UnmarshalList E (index (Header req) ''Preload''))) \<and>
    (index (Query req) ''preload'' = [] \<or> isl (UnmarshalList E (index (Query req) ''preload'')))
      \<longrightarrow> d_preload (extractFromRequest E req) = [] \<and> \<not> preloadHeader (extractFromRequest E req)
          \<and> \<not> preloadQuery (extractFromRequest E req)) \<and>
   (Context req \<noteq> NoValue \<longrightarrow>
      returned (Apply E v req rw (Inr body) hs) \<and>
      returnedError (Apply E v req rw (Inr body) hs) = None \<and>
      returnedBody (Apply E v req rw (Inr body) hs) \<noteq> None)"
proof -
  have hf: "extractFromRequest E (req\<lparr>Header := Header_Del (Header req) ''Fields''\<rparr>) = extractFromRequest E req"
    if "isl (UnmarshalList E (index (Header req) ''Fields''))"
    using that
    by (auto simp: extractFromRequest_def Let_def Header_Del_def index_def
             split: sum.splits prod.splits if_splits option.splits)
  have hp: "extractFromRequest E (req\<lparr>Header := Header_Del (Header req) ''Preload''\<rparr>) = extractFromRequest E req"
    if "isl (UnmarshalList E (index (Header req) ''Preload''))"
    using that
    by (auto simp: extractFromRequest_def Let_def Header_Del_def index_def
             split: sum.splits prod.splits if_splits option.splits)
  have qf: "extractFromRequest E (req\<lparr>Query := Header_Del (Query req) ''fields''\<rparr>) = extractFromRequest E req"
    if "isl (UnmarshalList E (index (Query req) ''fields''))"
    using that
    by (auto simp: extractFromRequest_def Let_def Header_Del_def index_def
             split: sum.splits prod.splits if_splits option.splits)
  have qp: "extractFromRequest E (req\<lparr>Query := Header_Del (Query req) ''preload''\<rparr>) = extractFromRequest E req"
    if "isl (UnmarshalList E (index (Query req) ''preload''))"
    using that
    by (auto simp: extractFromRequest_def Let_def Header_Del_def index_def
             split: sum.splits prod.splits if_splits option.splits)
  have af: "Apply E v (req\<lparr>Header := Header_Del (Header req) ''Fields''\<rparr>) rw responseBody hs =
        Apply E v req rw responseBody hs"
    if "isl (UnmarshalList E (index (Header req) ''Fields''))"
    using hf [OF that] by (intro Apply_Header_Del) simp_all
  have ap: "Apply E v (req\<lparr>Header := Header_Del (Header req) ''Preload''\<rparr>) rw responseBody hs =
        Apply E v req rw responseBody hs"
    if "isl (UnmarshalList E (index (Header req) ''Preload''))"
    using hp [OF that] by (intro Apply_Header_Del) simp_all
  have r: "Context req \<noteq> NoValue \<longrightarrow>
      returned (Apply E v req rw (Inr body) hs) \<and>
      returnedError (Apply E v req rw (Inr body) hs) = None \<and>
      returnedBody (Apply E v req rw (Inr body) hs) \<noteq> None"
    using Apply_total [of req E v rw body hs]
    by (auto simp: returned_def returnedBody_def returnedError_def)
  have ef:
    "(index (Header req) ''Fields'' = [] \<or> isl (UnmarshalList E (index (Header req) ''Fields''))) \<and>
     (index (Query req) ''fields'' = [] \<or> isl (UnmarshalList E (index (Query req) ''fields'')))
      \<longrightarrow> d_fields (extractFromRequest E req) = [] \<and> \<not> fieldsHeader (extractFromRequest E req)
          \<and> \<not> fieldsQuery (extractFromRequest E req)"
    by (auto simp: extractFromRequest_def Let_def split: sum.splits prod.splits if_splits)
  have ep:
    "(index (Header req) ''Preload'' = [] \<or> isl (UnmarshalList E (index (Header req) ''Preload''))) \<and>
     (index (Query req) ''preload'' = [] \<or> isl (UnmarshalList E (index (Query req) ''preload'')))
      \<longrightarrow> d_preload (extractFromRequest E req) = [] \<and> \<not> preloadHeader (extractFromRequest E req)
          \<and> \<not> preloadQuery (extractFromRequest E req)"
    by (auto simp: extractFromRequest_def Let_def split: sum.splits prod.splits if_splits)
  from hf hp qf qp af ap r ef ep show ?thesis by blast
qed

text \<open>
  The witness: a request whose \<^verbatim>\<open>Fields\<close> and \<^verbatim>\<open>Preload\<close> headers are both malformed
  and that has no query parameter, and a request whose two query parameters are
  malformed. For the first the book comes back whole, with no \<^verbatim>\<open>Vary\<close> and no
  \<^verbatim>\<open>Link\<close> header, and no push.
\<close>

theorem malformed_directive_is_absent_witness:
  "isl (UnmarshalList bookEnv (index (Header brokenOnlyRequest) ''Fields'')) \<and>
   isl (UnmarshalList bookEnv (index (Header brokenOnlyRequest) ''Preload'')) \<and>
   index (Query brokenOnlyRequest) ''fields'' = [] \<and>
   index (Query brokenOnlyRequest) ''preload'' = [] \<and>
   Context brokenOnlyRequest \<noteq> NoValue \<and>
   extractFromRequest bookEnv
     (brokenOnlyRequest\<lparr>Header := Header_Del (Header brokenOnlyRequest) ''Fields''\<rparr>) =
     extractFromRequest bookEnv brokenOnlyRequest \<and>
   extractFromRequest bookEnv
     (brokenOnlyRequest\<lparr>Header := Header_Del (Header brokenOnlyRequest) ''Preload''\<rparr>) =
     extractFromRequest bookEnv brokenOnlyRequest \<and>
   Apply bookEnv defaultVulcain
     (brokenOnlyRequest\<lparr>Header := Header_Del (Header brokenOnlyRequest) ''Fields''\<rparr>)
     directWriter (Inr (encode bookDocument)) jsonHeaders =
     Apply bookEnv defaultVulcain brokenOnlyRequest directWriter (Inr (encode bookDocument)) jsonHeaders \<and>
   Apply bookEnv defaultVulcain
     (brokenOnlyRequest\<lparr>Header := Header_Del (Header brokenOnlyRequest) ''Preload''\<rparr>)
     directWriter (Inr (encode bookDocument)) jsonHeaders =
     Apply bookEnv defaultVulcain brokenOnlyRequest directWriter (Inr (encode bookDocument)) jsonHeaders \<and>
   d_fields (extractFromRequest bookEnv brokenOnlyRequest) = [] \<and>
   \<not> fieldsHeader (extractFromRequest bookEnv brokenOnlyRequest) \<and>
   \<not> fieldsQuery (extractFromRequest bookEnv brokenOnlyRequest) \<and>
   d_preload (extractFromRequest bookEnv brokenOnlyRequest) = [] \<and>
   \<not> preloadHeader (extractFromRequest bookEnv brokenOnlyRequest) \<and>
   \<not> preloadQuery (extractFromRequest bookEnv brokenOnlyRequest) \<and>
   returned (Apply bookEnv defaultVulcain brokenOnlyRequest directWriter
     (Inr (encode bookDocument)) jsonHeaders) \<and>
   returnedError (Apply bookEnv defaultVulcain brokenOnlyRequest directWriter
     (Inr (encode bookDocument)) jsonHeaders) = None \<and>
   returnedBody (Apply bookEnv defaultVulcain brokenOnlyRequest directWriter
     (Inr (encode bookDocument)) jsonHeaders) = Some (encode bookDocument) \<and>
   returnedHeader (Apply bookEnv defaultVulcain brokenOnlyRequest directWriter
     (Inr (encode bookDocument)) jsonHeaders) ''Vary'' = [] \<and>
   returnedHeader (Apply bookEnv defaultVulcain brokenOnlyRequest directWriter
     (Inr (encode bookDocument)) jsonHeaders) ''Link'' = [] \<and>
   Apply_pushes bookEnv defaultVulcain brokenOnlyRequest (encode bookDocument) jsonHeaders = [] \<and>
   isl (UnmarshalList bookEnv (index (Query brokenQueryRequest) ''fields'')) \<and>
   isl (UnmarshalList bookEnv (index (Query brokenQueryRequest) ''preload'')) \<and>
   extractFromRequest bookEnv
     (brokenQueryRequest\<lparr>Query := Header_Del (Query brokenQueryRequest) ''fields''\<rparr>) =
     extractFromRequest bookEnv brokenQueryRequest \<and>
   extractFromRequest bookEnv
     (brokenQueryRequest\<lparr>Query := Header_Del (Query brokenQueryRequest) ''preload''\<rparr>) =
     extractFromRequest bookEnv brokenQueryRequest"
proof -
  have a: "isl (UnmarshalList bookEnv (index (Header brokenOnlyRequest) ''Fields'')) \<and>
   isl (UnmarshalList bookEnv (index (Header brokenOnlyRequest) ''Preload'')) \<and>
   index (Query brokenOnlyRequest) ''fields'' = [] \<and>
   index (Query brokenOnlyRequest) ''preload'' = []"
    by code_simp
  have q: "isl (UnmarshalList bookEnv (index (Query brokenQueryRequest) ''fields'')) \<and>
   isl (UnmarshalList bookEnv (index (Query brokenQueryRequest) ''preload''))"
    by code_simp
  have c: "Context brokenOnlyRequest \<noteq> NoValue"
    by (simp add: brokenOnlyRequest_def)
  have e: "returnedBody (Apply bookEnv defaultVulcain brokenOnlyRequest directWriter
     (Inr (encode bookDocument)) jsonHeaders) = Some (encode bookDocument) \<and>
   returnedHeader (Apply bookEnv defaultVulcain brokenOnlyRequest directWriter
     (Inr (encode bookDocument)) jsonHeaders) ''Vary'' = [] \<and>
   returnedHeader (Apply bookEnv defaultVulcain brokenOnlyRequest directWriter
     (Inr (encode bookDocument)) jsonHeaders) ''Link'' = [] \<and>
   Apply_pushes bookEnv defaultVulcain brokenOnlyRequest (encode bookDocument) jsonHeaders = []"
    by code_simp
  note h = malformed_directive_is_absent [where E = bookEnv and req = brokenOnlyRequest
         and v = defaultVulcain and rw = directWriter and responseBody = "Inr (encode bookDocument)"
         and hs = jsonHeaders and body = "encode bookDocument"]
  note g = malformed_directive_is_absent [where E = bookEnv and req = brokenQueryRequest
         and v = defaultVulcain and rw = directWriter and responseBody = "Inr (encode bookDocument)"
         and hs = jsonHeaders and body = "encode bookDocument"]
  from h g a q c e show ?thesis by simp
qed

section \<open>The body Apply returns\<close>











end
